theory Spec2Isabelle
  imports Complex_Main
begin

section \<open>Favorability engine of Sakuya\_bot: data model\<close>

text \<open>
  The development follows \<^verbatim>\<open>src/plugins/favorability_plugin/plugin.py\<close> and
  \<^verbatim>\<open>src/scripts/favorability_manager.py\<close>.

  Python's \<^verbatim>\<open>str\<close> is a sequence of Unicode code points, so a text is a list of
  code points (\<open>pystr\<close>); the keyword tables of the source are CJK text and are written
  below as the code points of their characters. Identifiers that the source writes in
  ASCII (person ids, interaction types, reasoning labels, dates) are HOL strings.
  Timestamps are what \<^verbatim>\<open>time.time()\<close> returns, modelled as exact reals.
\<close>

type_synonym pystr = "nat list"
type_synonym person_id = string

text \<open>
  The nine level names that \<^verbatim>\<open>get_favorability_level\<close> returns, highest first.
  The source strings are
  Kin = U+81F3 U+4EB2, Bestfriend = U+631A U+53CB, Friend = U+597D U+53CB,
  Acquaintance = U+719F U+4EBA, Known = U+8BA4 U+8BC6, Stranger = U+964C U+751F,
  Disliked = U+538C U+6076, Hostile = U+654C U+89C6, Nemesis = U+6B7B U+654C.
\<close>

datatype level =
  Kin | Bestfriend | Friend | Acquaintance | Known | Stranger | Disliked | Hostile | Nemesis

text \<open>A row of the \<^verbatim>\<open>Favorability\<close> table.\<close>

record favorability_row =
  favorability :: int
  level :: level
  total_interactions :: int
  positive_interactions :: int
  negative_interactions :: int
  last_interaction :: real
  created_at :: real

text \<open>
  The durable store: the rows by \<open>person_id\<close>, and whether the backend currently raises
  on a query (\<open>read_fails\<close>) or on \<^verbatim>\<open>save\<close>/\<^verbatim>\<open>create\<close> (\<open>write_fails\<close>).
\<close>

record db =
  rows :: "person_id \<rightharpoonup> favorability_row"
  read_fails :: bool
  write_fails :: bool

datatype db_error = DbError

definition get_or_none :: "db \<Rightarrow> person_id \<Rightarrow> db_error + favorability_row option" where
  "get_or_none d pid = (if read_fails d then Inl DbError else Inr (rows d pid))"

definition save :: "db \<Rightarrow> person_id \<Rightarrow> favorability_row \<Rightarrow> db_error + db" where
  "save d pid r = (if write_fails d then Inl DbError else Inr (d\<lparr>rows := (rows d)(pid \<mapsto> r)\<rparr>))"

definition create :: "db \<Rightarrow> person_id \<Rightarrow> favorability_row \<Rightarrow> db_error + db" where
  "create d pid r = (if write_fails d then Inl DbError else Inr (d\<lparr>rows := (rows d)(pid \<mapsto> r)\<rparr>))"

section \<open>Band classifier\<close>

text \<open>\<^verbatim>\<open>get_favorability_level\<close> of plugin.py (lines 128-147).\<close>

definition get_favorability_level :: "int \<Rightarrow> level" where
  "get_favorability_level fav =
     (if fav \<ge> 120 then Kin
      else if fav \<ge> 90 then Bestfriend
      else if fav \<ge> 70 then Friend
      else if fav \<ge> 50 then Acquaintance
      else if fav \<ge> 30 then Known
      else if fav \<ge> 10 then Stranger
      else if fav \<ge> -10 then Disliked
      else if fav \<ge> -30 then Hostile
      else Nemesis)"

text \<open>
  The band table as section 4.1 of the specification words it: nine inclusive ranges
  with their labels. \<open>band_spec\<close> looks a score up in the table.
\<close>

definition band_table :: "(int \<times> int \<times> level) list" where
  "band_table =
     [(120, 150, Kin), (90, 119, Bestfriend), (70, 89, Friend), (50, 69, Acquaintance),
      (30, 49, Known), (10, 29, Stranger), (-10, 9, Disliked), (-30, -11, Hostile),
      (-50, -31, Nemesis)]"

definition band_spec :: "int \<Rightarrow> level option" where
  "band_spec score =
     map_option (\<lambda>(lo, hi, l). l) (find (\<lambda>(lo, hi, l). lo \<le> score \<and> score \<le> hi) band_table)"

text \<open>The order of the bands, from the lowest relationship to the highest.\<close>

fun level_rank :: "level \<Rightarrow> nat" where
  "level_rank Nemesis = 0"
| "level_rank Hostile = 1"
| "level_rank Disliked = 2"
| "level_rank Stranger = 3"
| "level_rank Known = 4"
| "level_rank Acquaintance = 5"
| "level_rank Friend = 6"
| "level_rank Bestfriend = 7"
| "level_rank Kin = 8"

section \<open>Store operations of the plugin\<close>

text \<open>\<^verbatim>\<open>get_favorability\<close> (lines 35-44): a query; any exception gives 50.\<close>

definition get_favorability :: "db \<Rightarrow> person_id \<Rightarrow> int" where
  "get_favorability d pid =
     (case get_or_none d pid of
        Inl e \<Rightarrow> 50
      | Inr None \<Rightarrow> 50
      | Inr (Some record) \<Rightarrow> favorability record)"

text \<open>\<^verbatim>\<open>get_favorability_record\<close> (lines 47-53): a query; any exception gives None.\<close>

definition get_favorability_record :: "db \<Rightarrow> person_id \<Rightarrow> favorability_row option" where
  "get_favorability_record d pid =
     (case get_or_none d pid of Inl e \<Rightarrow> None | Inr r \<Rightarrow> r)"

text \<open>
  \<^verbatim>\<open>set_favorability\<close> (lines 56-82). \<open>now\<close> is the reading of \<^verbatim>\<open>time.time()\<close>.
  The result is the returned flag and the store afterwards.
\<close>

definition set_favorability :: "db \<Rightarrow> person_id \<Rightarrow> int \<Rightarrow> real \<Rightarrow> bool \<times> db" where
  "set_favorability d pid value0 now =
     (let v = max (-50) (min 150 value0);
          lvl = get_favorability_level v
      in case get_or_none d pid of
           Inl e \<Rightarrow> (False, d)
         | Inr (Some record) \<Rightarrow>
             (case save d pid (record\<lparr>favorability := v, level := lvl,
                                       last_interaction := now\<rparr>) of
                Inl e \<Rightarrow> (False, d)
              | Inr d' \<Rightarrow> (True, d'))
         | Inr None \<Rightarrow>
             (case create d pid \<lparr>favorability = v, level = lvl,
                                 total_interactions = 0, positive_interactions = 0,
                                 negative_interactions = 0, last_interaction = now,
                                 created_at = now\<rparr> of
                Inl e \<Rightarrow> (False, d)
              | Inr d' \<Rightarrow> (True, d')))"

text \<open>
  \<^verbatim>\<open>add_favorability\<close> (lines 85-125). The result is the returned score and the
  store afterwards.
\<close>

definition add_favorability :: "db \<Rightarrow> person_id \<Rightarrow> int \<Rightarrow> string \<Rightarrow> real \<Rightarrow> int \<times> db" where
  "add_favorability d pid delta interaction_type now =
     (case get_or_none d pid of
        Inl e \<Rightarrow> (50, d)
      | Inr record \<Rightarrow>
          (let current = (case record of Some r \<Rightarrow> favorability r | None \<Rightarrow> 50);
               new_value = max (-50) (min 150 (current + delta));
               lvl = get_favorability_level new_value
           in case record of
                Some r \<Rightarrow>
                  (case save d pid
                          (r\<lparr>favorability := new_value, level := lvl,
                             total_interactions := total_interactions r + 1,
                             positive_interactions :=
                               (if interaction_type = ''positive''
                                then positive_interactions r + 1 else positive_interactions r),
                             negative_interactions :=
                               (if interaction_type = ''positive'' then negative_interactions r
                                else if interaction_type = ''negative''
                                then negative_interactions r + 1 else negative_interactions r),
                             last_interaction := now\<rparr>) of
                     Inl e \<Rightarrow> (50, d)
                   | Inr d' \<Rightarrow> (new_value, d'))
              | None \<Rightarrow>
                  (case create d pid
                          \<lparr>favorability = new_value, level = lvl, total_interactions = 1,
                           positive_interactions = (if interaction_type = ''positive'' then 1 else 0),
                           negative_interactions = (if interaction_type = ''negative'' then 1 else 0),
                           last_interaction = now, created_at = now\<rparr> of
                     Inl e \<Rightarrow> (50, d)
                   | Inr d' \<Rightarrow> (new_value, d'))))"

section \<open>The administration script\<close>

text \<open>\<^verbatim>\<open>get_favorability_level\<close> of favorability\_manager.py (lines 14-27).\<close>

definition manager_get_favorability_level :: "int \<Rightarrow> level" where
  "manager_get_favorability_level fav =
     (if fav \<ge> 90 then Bestfriend
      else if fav \<ge> 70 then Friend
      else if fav \<ge> 50 then Acquaintance
      else if fav \<ge> 30 then Known
      else if fav \<ge> 10 then Stranger
      else Disliked)"

text \<open>
  \<^verbatim>\<open>modify_favorability\<close> of favorability\_manager.py (lines 95-120). The script has no
  exception handler: a store exception is the result \<open>Inl\<close>.
\<close>

definition modify_favorability :: "db \<Rightarrow> person_id \<Rightarrow> int \<Rightarrow> real \<Rightarrow> db_error + db" where
  "modify_favorability d pid new_value0 now =
     (let new_value = max 0 (min 150 new_value0);
          new_level = manager_get_favorability_level new_value
      in case get_or_none d pid of
           Inl e \<Rightarrow> Inl e
         | Inr (Some record) \<Rightarrow> save d pid (record\<lparr>favorability := new_value, level := new_level\<rparr>)
         | Inr None \<Rightarrow>
             create d pid \<lparr>favorability = new_value, level = new_level,
                           total_interactions = 0, positive_interactions = 0,
                           negative_interactions = 0, last_interaction = now,
                           created_at = now\<rparr>)"

section \<open>Text matching\<close>

text \<open>\<open>startswith s k\<close>: the text \<open>s\<close> begins with \<open>k\<close>.\<close>

fun startswith :: "pystr \<Rightarrow> pystr \<Rightarrow> bool" where
  "startswith s [] = True"
| "startswith [] (k # ks) = False"
| "startswith (c # cs) (k # ks) = (c = k \<and> startswith cs ks)"

text \<open>Python's \<^verbatim>\<open>k in s\<close> on strings: \<open>k\<close> occurs in \<open>s\<close> as a substring.\<close>

fun py_in :: "pystr \<Rightarrow> pystr \<Rightarrow> bool" where
  "py_in k [] = (k = [])"
| "py_in k (c # cs) = (startswith (c # cs) k \<or> py_in k cs)"

text \<open>\<^verbatim>\<open>any(keyword in s for keyword in keywords)\<close>.\<close>

definition any_in :: "pystr list \<Rightarrow> pystr \<Rightarrow> bool" where
  "any_in keywords s = list_ex (\<lambda>keyword. py_in keyword s) keywords"

text \<open>
  \<^verbatim>\<open>for keyword in keywords: if keyword in s: ...; return\<close>: the loop acts on the
  first keyword of the table that occurs in \<open>s\<close>, and falls through when there is none.
\<close>

definition first_in :: "pystr list \<Rightarrow> pystr \<Rightarrow> pystr option" where
  "first_in keywords s = find (\<lambda>keyword. py_in keyword s) keywords"

text \<open>
  \<^verbatim>\<open>for label, keywords in table.items(): if any(...): found = label; break\<close>,
  the dictionary in its insertion order.
\<close>

definition first_label :: "(string \<times> pystr list) list \<Rightarrow> pystr \<Rightarrow> string option" where
  "first_label table s = map_option fst (find (\<lambda>(label, keywords). any_in keywords s) table)"

text \<open>The code points for which \<^verbatim>\<open>str.isspace\<close> holds; \<^verbatim>\<open>str.strip()\<close> removes them.\<close>

definition isspace :: "nat \<Rightarrow> bool" where
  "isspace c = ((9 \<le> c \<and> c \<le> 13) \<or> (28 \<le> c \<and> c \<le> 32) \<or> c = 133 \<or> c = 160 \<or> c = 5760
     \<or> (8192 \<le> c \<and> c \<le> 8202) \<or> c = 8232 \<or> c = 8233 \<or> c = 8239 \<or> c = 8287 \<or> c = 12288)"

text \<open>\<^verbatim>\<open>not s.strip()\<close>: nothing is left of \<open>s\<close> after stripping.\<close>

definition blank :: "pystr \<Rightarrow> bool" where
  "blank s = list_all isspace s"

section \<open>Keyword tables of FavorabilityEventHandler\<close>

text \<open>
  The class attributes of lines 473-597, each keyword as the code points of its
  characters, in the order of the source.
\<close>

definition AFFECTIONATE_KEYWORDS :: "pystr list" where
  "AFFECTIONATE_KEYWORDS =
   [[21682, 22812, 22992, 22992], [21682, 22812, 22969, 22969], [21682, 22812, 23398, 22992],
    [21682, 22812, 23398, 22969], [21682, 22812, 37233], [23567, 21682, 22812],
    [25105, 23478, 21682, 22812], [21682, 22812, 23453, 36125],
    [22899, 20166, 38271, 22823, 20154], [23436, 32654, 22899, 20166, 38271],
    [21916, 27426, 21682, 22812], [26368, 21916, 27426, 21682, 22812], [29233, 21682, 22812],
    [22909, 21916, 27426, 20320], [26368, 21916, 27426, 20320], [29233, 20320, 21734],
    [20146, 20146], [20040, 20040, 21714], [109, 117, 97], [27604, 24515], [36148, 36148]]"

definition SOFTEN_NEGATIVE_KEYWORDS :: "pystr list" where
  "SOFTEN_NEGATIVE_KEYWORDS =
   [[25265, 27465], [19981, 22909, 24847, 24605], [23545, 19981, 36215], [22833, 31036],
    [20882, 29359, 20102], [25171, 25200, 20102], [25265, 24616, 19979],
    [21520, 27133, 19968, 19979], [21482, 26159, 21520, 27133]]"

definition POSITIVE_KEYWORDS :: "pystr list" where
  "POSITIVE_KEYWORDS =
   [[35874, 35874], [24863, 35874], [35874, 35874, 20320], [38750, 24120, 24863, 35874],
    [22826, 24863, 35874, 20102], [36763, 33510, 20102], [24863, 24681],
    [20320, 30495, 22909], [20320, 30495, 26834], [23398, 21040, 20102],
    [21463, 25945, 20102], [20329, 26381], [21385, 23475], [22909, 21385, 23475],
    [22826, 24378, 20102], [30495, 26834], [26834, 26834, 21714], [26202, 23433],
    [26089, 23433], [19978, 21320, 22909], [19979, 21320, 22909], [21507, 20102, 21527],
    [36190], [22909, 36190], [54, 54, 54], [21487, 29233], [33804], [28418, 20142],
    [20445, 37325, 36523, 20307], [27880, 24847, 20241, 24687], [21035, 22826, 32047],
    [21152, 27833]]"

definition NEGATIVE_KEYWORDS :: "pystr list" where
  "NEGATIVE_KEYWORDS =
   [[20667, 36924], [26234, 38556], [24223, 29289], [22403, 22334], [21435, 27515], [28378],
    [38381, 22068], [115, 98], [99, 110, 109], [110, 109, 115, 108], [33041, 27531],
    [30333, 30196], [24369, 26234], [110, 99], [20667, 23376], [34850, 36135],
    [28151, 34507], [36145], [23114], [22920, 30340], [29399, 19996, 35199], [27515, 22920],
    [20320, 22920, 27515, 20102], [20840, 23478], [31062, 23447], [27515, 20840, 23478],
    [20154, 28195], [36133, 31867], [30044, 29983], [29399, 23064, 20859], [26434, 31181],
    [24694, 24515], [35752, 21388, 20320], [28378, 24320], [28040, 22833], [27515, 24320],
    [33041, 23376, 26377, 30149], [26377, 30149, 21543], [31070, 32463, 30149],
    [21464, 24577], [24694, 24515, 27515, 20102], [108, 111, 119], [22403, 22334, 36135],
    [24223, 26612], [27809, 29992], [20002, 20154], [20002, 33080], [34850, 27515, 20102],
    [31528, 27515, 20102]]"

definition MILD_NEGATIVE_KEYWORDS :: "pystr list" where
  "MILD_NEGATIVE_KEYWORDS =
   [[26377, 28857, 28902], [26377, 28857, 28902, 20154], [28902, 27515, 20102],
    [26080, 35821], [26377, 28857, 26080, 35821], [19981, 22826, 34892],
    [19981, 22826, 22909], [19981, 22826, 28385, 24847], [19968, 33324, 33324],
    [23601, 36825], [26377, 28857, 23604, 23596], [19981, 22826, 23545],
    [24618, 24618, 30340], [101, 109, 109, 109], [39069, 46, 46, 46]]"

definition SEVERE_KEYWORDS :: "pystr list" where
  "SEVERE_KEYWORDS =
   [[20667, 36924], [21435, 27515], [99, 110, 109], [110, 109, 115, 108], [27515, 22920],
    [27515, 20840, 23478], [20154, 28195], [30044, 29983], [26434, 31181],
    [29399, 23064, 20859], [24324, 27515, 20320], [25171, 27515, 20320], [25549, 20320]]"

definition REASONING_OTHERS_TARGET :: "pystr list" where
  "REASONING_OTHERS_TARGET =
   [[23545, 20182, 20154], [23545, 21035, 20154], [23545, 32676, 21451],
    [23545, 26576, 20154], [38024, 23545, 21035, 20154], [38024, 23545, 32676, 21451],
    [32676, 21451, 20043, 38388], [23545, 20182], [23545, 22905]]"

definition REASONING_HEDGE_KEYWORDS :: "pystr list" where
  "REASONING_HEDGE_KEYWORDS =
   [[21487, 33021], [20063, 35768], [20284, 20046], [25512, 27979], [29468, 27979],
    [19981, 30830, 23450], [30097, 20284], [20687, 26159], [24863, 35273, 20687],
    [29609, 31505], [24320, 29609, 31505], [35843, 20355]]"

definition NOT_TALKING_TO_ME_KEYWORDS :: "pystr list" where
  "NOT_TALKING_TO_ME_KEYWORDS =
   [[19981, 26159, 22312, 21644, 25105, 35828, 35805],
    [19981, 26159, 23545, 25105, 35828, 30340], [19981, 26159, 35828, 32473, 25105],
    [19981, 26159, 36319, 25105, 35828], [19982, 25105, 26080, 20851],
    [36319, 25105, 26080, 20851], [21644, 25105, 26080, 20851], [32676, 21451, 20043, 38388],
    [32676, 21451, 20204, 22312, 32842], [32676, 21451, 22312, 35752, 35770],
    [32676, 21451, 33258, 24049], [20182, 20204, 22312, 32842], [20182, 20204, 20043, 38388],
    [20182, 20204, 33258, 24049], [21035, 20154, 30340, 23545, 35805],
    [21035, 20154, 22312, 32842], [21035, 20154, 30340, 35805, 39064],
    [27809, 26377, 25552, 21040, 25105], [27809, 26377, 21483, 25105],
    [27809, 26377, 64, 25105], [27809, 26377, 21628, 21483, 25105],
    [19981, 26159, 38024, 23545, 25105], [19981, 38656, 35201, 25105, 22238, 22797],
    [26080, 38656, 22238, 22797], [26049, 35266], [22260, 35266], [30475, 28909, 38393],
    [21507, 29916]]"

definition REASONING_BEHAVIOR_LABELS :: "(string \<times> pystr list) list" where
  "REASONING_BEHAVIOR_LABELS =
   [
    (''insult'',
     [[36785, 39554], [20154, 36523, 25915, 20987], [24694, 24847, 25915, 20987]]),
    (''harassment'',
     [[39578, 25200], [24615, 26263, 31034], [33394, 24773], [28139, 31229], [35843, 25103],
      [38750, 31036], [36234, 30028]]),
    (''threat'',
     [[23041, 32961], [24656, 21523]]),
    (''rude'',
     [[19981, 23562, 37325], [19979, 27969], [19981, 38597], [24320, 40644, 33108],
      [33636, 27573, 23376]])]"

definition REASONING_POSITIVE_LABELS :: "(string \<times> pystr list) list" where
  "REASONING_POSITIVE_LABELS =
   [
    (''high'',
     [[20449, 20219], [21916, 27426], [20851, 24515], [40723, 21169], [25903, 25345]]),
    (''mid'',
     [[24863, 35874], [22840, 36190], [31216, 36190], [35748, 21487], [32943, 23450],
      [34920, 25196]]),
    (''low'',
     [[21451, 22909]])]"

section \<open>Configuration, events and handler state\<close>

text \<open>
  The tunables that \<^verbatim>\<open>FavorabilityEventHandler.execute\<close> reads (lines 646-662, 682,
  713, 722, 904-906), after \<^verbatim>\<open>_get_int_config\<close>, under the names of the local variables.
\<close>

record config =
  skip_penalty_when_not_talking_to_me :: bool
  reasoning_detection_enabled :: bool
  interaction_cooldown_seconds :: int
  positive_delta :: int
  affectionate_delta :: int
  negative_delta :: int
  mild_negative_delta :: int
  severe_delta :: int
  harassment_delta :: int
  harassment_window :: int
  harassment_threshold :: int
  positive_cooldown :: int
  negative_cooldown :: int
  min_positive_len :: int
  min_normal_len :: int
  positive_bonus_delta :: int
  reasoning_positive_delta :: int
  reasoning_positive_bonus_high :: int
  reasoning_positive_bonus_mid :: int
  reasoning_positive_bonus_low :: int
  normal_delta :: int
  normal_cooldown :: int
  daily_limit :: int

text \<open>The fallbacks that the \<^verbatim>\<open>get_config\<close> calls of that handler pass.\<close>

definition default_config :: config where
  "default_config =
     \<lparr>skip_penalty_when_not_talking_to_me = True, reasoning_detection_enabled = False,
      interaction_cooldown_seconds = 120, positive_delta = 1, affectionate_delta = 3,
      negative_delta = -5, mild_negative_delta = 0, severe_delta = -5, harassment_delta = -5,
      harassment_window = 300, harassment_threshold = 3, positive_cooldown = 120,
      negative_cooldown = 120, min_positive_len = 4, min_normal_len = 6,
      positive_bonus_delta = 1, reasoning_positive_delta = 1,
      reasoning_positive_bonus_high = 2, reasoning_positive_bonus_mid = 1,
      reasoning_positive_bonus_low = 1, normal_delta = 1, normal_cooldown = 600,
      daily_limit = 10\<rparr>"

text \<open>
  An event is what the prologue of \<^verbatim>\<open>execute\<close> (lines 604-677) has computed when the
  scoring starts: the sender, the text with the quoted reply removed, stripped and
  lower-cased, its length without whitespace, the two reasoning texts joined and
  lower-cased, the clock and the date.
\<close>

record event =
  person_id :: person_id
  content_lower :: pystr
  content_len_no_space :: int
  combined_reasoning :: pystr
  current_time :: real
  today :: string

text \<open>An entry of \<^verbatim>\<open>_daily_normal_gain_tracker\<close>.\<close>

record daily_gain =
  date :: string
  count :: int

text \<open>The store and the five module-level trackers (lines 431-445).\<close>

record state =
  store :: db
  negative_behavior_tracker :: "person_id \<rightharpoonup> (real \<times> pystr) list"
  normal_interaction_tracker :: "person_id \<rightharpoonup> real"
  positive_interaction_tracker :: "person_id \<rightharpoonup> real"
  negative_interaction_tracker :: "person_id \<rightharpoonup> real"
  daily_normal_gain_tracker :: "person_id \<rightharpoonup> daily_gain"

text \<open>\<^verbatim>\<open>tracker.get(person_id, 0)\<close>.\<close>

definition tracker_get :: "(person_id \<rightharpoonup> real) \<Rightarrow> person_id \<Rightarrow> real" where
  "tracker_get tracker pid = (case tracker pid of None \<Rightarrow> 0 | Some t \<Rightarrow> t)"

text \<open>
  A call \<^verbatim>\<open>add_favorability(person_id, delta, interaction_type)\<close> from a handler; the
  returned score only goes to the log.
\<close>

definition scored :: "state \<Rightarrow> person_id \<Rightarrow> int \<Rightarrow> string \<Rightarrow> real \<Rightarrow> state" where
  "scored s pid delta interaction_type now =
     s\<lparr>store := snd (add_favorability (store s) pid delta interaction_type now)\<rparr>"

text \<open>
  Lines 792-800 (and 843-851, 1009-1017): append the hit to the person's log, then keep
  the entries younger than the window.
\<close>

definition record_negative :: "state \<Rightarrow> person_id \<Rightarrow> real \<Rightarrow> pystr \<Rightarrow> int \<Rightarrow> state" where
  "record_negative s pid now keyword window =
     s\<lparr>negative_behavior_tracker := (negative_behavior_tracker s)
          (pid \<mapsto> filter (\<lambda>(ts, kw). now - ts < real_of_int window)
                    ((case negative_behavior_tracker s pid of None \<Rightarrow> [] | Some l \<Rightarrow> l)
                       @ [(now, keyword)]))\<rparr>"

definition recent_count :: "state \<Rightarrow> person_id \<Rightarrow> int" where
  "recent_count s pid =
     int (length (case negative_behavior_tracker s pid of None \<Rightarrow> [] | Some l \<Rightarrow> l))"

section \<open>FavorabilityEventHandler.execute\<close>

text \<open>Lines 681-688.\<close>

definition is_not_talking_to_me :: "config \<Rightarrow> event \<Rightarrow> bool" where
  "is_not_talking_to_me cfg ev =
     (skip_penalty_when_not_talking_to_me cfg
      \<and> any_in NOT_TALKING_TO_ME_KEYWORDS (combined_reasoning ev))"

text \<open>Lines 691-718: the branch taken when the message is not addressed to the bot.\<close>

definition not_talking_branch :: "config \<Rightarrow> event \<Rightarrow> state \<Rightarrow> state" where
  "not_talking_branch cfg ev s =
     (let pid = person_id ev; now = current_time ev;
          others_targeted = any_in REASONING_OTHERS_TARGET (combined_reasoning ev);
          behavior_label = first_label REASONING_BEHAVIOR_LABELS (combined_reasoning ev)
      in if others_targeted
            \<and> behavior_label \<in> {Some ''insult'', Some ''harassment'', Some ''threat''}
         then
           (if now - tracker_get (negative_interaction_tracker s) pid
                 \<ge> real_of_int (negative_cooldown cfg)
            then (scored s pid (negative_delta cfg) ''negative'' now)
                   \<lparr>negative_interaction_tracker := (negative_interaction_tracker s)(pid \<mapsto> now)\<rparr>
            else s)
         else
           (if now - tracker_get (normal_interaction_tracker s) pid
                 \<ge> real_of_int (interaction_cooldown_seconds cfg)
            then s\<lparr>normal_interaction_tracker := (normal_interaction_tracker s)(pid \<mapsto> now)\<rparr>
            else s))"

text \<open>
  Lines 723-758: the negative half of the reasoning detection. \<open>Some s'\<close> is a return
  with the state \<open>s'\<close>; \<open>None\<close> is falling through to the code below.
\<close>

definition reasoning_negative :: "config \<Rightarrow> event \<Rightarrow> state \<Rightarrow> state option" where
  "reasoning_negative cfg ev s =
     (let pid = person_id ev; now = current_time ev;
          hedge_detected = any_in REASONING_HEDGE_KEYWORDS (combined_reasoning ev)
      in case first_label REASONING_BEHAVIOR_LABELS (combined_reasoning ev) of
           None \<Rightarrow> None
         | Some behavior_label \<Rightarrow>
             if hedge_detected then Some s
             else if now - tracker_get (negative_interaction_tracker s) pid
                       \<ge> real_of_int (negative_cooldown cfg)
             then (let delta = (if behavior_label = ''rude'' then mild_negative_delta cfg
                                else negative_delta cfg)
                   in if delta \<noteq> 0
                      then Some ((scored s pid delta ''negative'' now)
                             \<lparr>negative_interaction_tracker :=
                                 (negative_interaction_tracker s)(pid \<mapsto> now)\<rparr>)
                      else Some s)
             else None)"

text \<open>The dictionary lookup of lines 769-773.\<close>

definition tier_bonus :: "config \<Rightarrow> string \<Rightarrow> int" where
  "tier_bonus cfg positive_tier =
     (if positive_tier = ''high'' then reasoning_positive_bonus_high cfg
      else if positive_tier = ''mid'' then reasoning_positive_bonus_mid cfg
      else if positive_tier = ''low'' then reasoning_positive_bonus_low cfg
      else reasoning_positive_bonus_mid cfg)"

text \<open>Lines 760-785: the positive half of the reasoning detection.\<close>

definition reasoning_positive :: "config \<Rightarrow> event \<Rightarrow> state \<Rightarrow> state option" where
  "reasoning_positive cfg ev s =
     (let pid = person_id ev; now = current_time ev
      in case first_label REASONING_POSITIVE_LABELS (combined_reasoning ev) of
           None \<Rightarrow> None
         | Some positive_tier \<Rightarrow>
             if now - tracker_get (positive_interaction_tracker s) pid
                  \<ge> real_of_int (positive_cooldown cfg)
             then (let delta = reasoning_positive_delta cfg + tier_bonus cfg positive_tier - 1
                   in Some ((scored s pid delta ''positive'' now)
                        \<lparr>positive_interaction_tracker :=
                            (positive_interaction_tracker s)(pid \<mapsto> now)\<rparr>))
             else None)"

text \<open>Lines 722-785 as a whole.\<close>

definition reasoning_stage :: "config \<Rightarrow> event \<Rightarrow> state \<Rightarrow> state option" where
  "reasoning_stage cfg ev s =
     (if \<not> blank (combined_reasoning ev) \<and> reasoning_detection_enabled cfg
      then (case reasoning_negative cfg ev s of
              Some s' \<Rightarrow> Some s'
            | None \<Rightarrow> reasoning_positive cfg ev s)
      else None)"

text \<open>Lines 790-820: the body of the loop over \<^verbatim>\<open>SEVERE_KEYWORDS\<close> at a hit.\<close>

definition severe_branch :: "config \<Rightarrow> event \<Rightarrow> pystr \<Rightarrow> state \<Rightarrow> state" where
  "severe_branch cfg ev keyword s =
     (let pid = person_id ev; now = current_time ev;
          s1 = record_negative s pid now keyword (harassment_window cfg);
          last_negative = tracker_get (negative_interaction_tracker s1) pid
      in if recent_count s1 pid \<ge> harassment_threshold cfg
         then (scored s1 pid (harassment_delta cfg) ''negative'' now)
                \<lparr>negative_interaction_tracker := (negative_interaction_tracker s1)(pid \<mapsto> now)\<rparr>
         else if now - last_negative < real_of_int (negative_cooldown cfg) then s1
         else (scored s1 pid (severe_delta cfg) ''negative'' now)
                \<lparr>negative_interaction_tracker := (negative_interaction_tracker s1)(pid \<mapsto> now)\<rparr>)"

text \<open>Lines 825-832: the body of the loop over \<^verbatim>\<open>MILD_NEGATIVE_KEYWORDS\<close> at a hit.\<close>

definition mild_branch :: "config \<Rightarrow> event \<Rightarrow> state \<Rightarrow> state" where
  "mild_branch cfg ev s =
     (let pid = person_id ev; now = current_time ev
      in if now - tracker_get (negative_interaction_tracker s) pid
              < real_of_int (negative_cooldown cfg)
         then s
         else (scored s pid (mild_negative_delta cfg) ''negative'' now)
                \<lparr>negative_interaction_tracker := (negative_interaction_tracker s)(pid \<mapsto> now)\<rparr>)"

text \<open>The exception that the handler can raise.\<close>

datatype py_error = OverflowError

text \<open>\<^verbatim>\<open>int.bit_length\<close> of a natural number.\<close>

fun bit_length :: "nat \<Rightarrow> nat" where
  "bit_length n = (if n = 0 then 0 else Suc (bit_length (n div 2)))"

declare bit_length.simps [simp del]

text \<open>The integer nearest to \<open>a / b\<close>, for \<open>b > 0\<close>; a tie goes to the even one.\<close>

definition round_half_even :: "int \<Rightarrow> int \<Rightarrow> int" where
  "round_half_even a b =
     (let q = a div b; r = a mod b
      in if 2 * r < b then q
         else if 2 * r > b then q + 1
         else if even q then q else q + 1)"

text \<open>
  \<^verbatim>\<open>int(n / 2)\<close> for an int \<open>n\<close>. The true division gives the double nearest to the
  quotient, a tie going to the even mantissa, and raises \<^verbatim>\<open>OverflowError\<close> when that
  double would be \<open>2 ^ 1024\<close> or more; \<^verbatim>\<open>int\<close> truncates the double toward zero.
  For \<open>\<bar>n\<bar> < 2 ^ 53\<close> the quotient is a double itself. From there on the doubles around
  \<open>\<bar>n\<bar> / 2\<close> are the multiples of \<open>u = 2 ^ (bit_length \<bar>n\<bar> - 54)\<close>, all of them integers.
\<close>

definition int_half :: "int \<Rightarrow> py_error + int" where
  "int_half n =
     (let m = \<bar>n\<bar>
      in if m < 2 ^ 53 then Inr (sgn n * (m div 2))
         else (let u = 2 ^ (bit_length (nat m) - 54);
                   r = u * round_half_even m (2 * u)
               in if r \<ge> 2 ^ 1024 then Inl OverflowError else Inr (sgn n * r)))"

text \<open>Lines 837-840.\<close>

definition adjusted_negative_delta :: "config \<Rightarrow> event \<Rightarrow> py_error + int" where
  "adjusted_negative_delta cfg ev =
     (if any_in SOFTEN_NEGATIVE_KEYWORDS (content_lower ev)
      then (case int_half (negative_delta cfg) of
              Inl e \<Rightarrow> Inl e
            | Inr half \<Rightarrow> Inr (min (-1) half))
      else Inr (negative_delta cfg))"

text \<open>
  Lines 836-869: the body of the loop over \<^verbatim>\<open>NEGATIVE_KEYWORDS\<close> at a hit. The
  softened delta is computed first (lines 837-840), before the log is touched: an
  exception there leaves the handler with the state as it was.
\<close>

definition negative_branch ::
    "config \<Rightarrow> event \<Rightarrow> pystr \<Rightarrow> state \<Rightarrow> py_error + state" where
  "negative_branch cfg ev keyword s =
     (case adjusted_negative_delta cfg ev of
        Inl e \<Rightarrow> Inl e
      | Inr adjusted \<Rightarrow>
          Inr (let pid = person_id ev; now = current_time ev;
                   s1 = record_negative s pid now keyword (harassment_window cfg);
                   last_negative = tracker_get (negative_interaction_tracker s1) pid
               in if recent_count s1 pid \<ge> harassment_threshold cfg
                  then (scored s1 pid (harassment_delta cfg) ''negative'' now)
                         \<lparr>negative_interaction_tracker :=
                             (negative_interaction_tracker s1)(pid \<mapsto> now)\<rparr>
                  else if now - last_negative < real_of_int (negative_cooldown cfg) then s1
                  else (scored s1 pid adjusted ''negative'' now)
                         \<lparr>negative_interaction_tracker :=
                             (negative_interaction_tracker s1)(pid \<mapsto> now)\<rparr>))"

text \<open>Lines 875-884: the body of the loop over \<^verbatim>\<open>AFFECTIONATE_KEYWORDS\<close> at a hit.\<close>

definition affectionate_branch :: "config \<Rightarrow> event \<Rightarrow> state \<Rightarrow> state" where
  "affectionate_branch cfg ev s =
     (let pid = person_id ev; now = current_time ev
      in if content_len_no_space ev < min_positive_len cfg then s
         else if now - tracker_get (positive_interaction_tracker s) pid
                   < real_of_int (positive_cooldown cfg)
         then s
         else (scored s pid (affectionate_delta cfg) ''positive'' now)
                \<lparr>positive_interaction_tracker := (positive_interaction_tracker s)(pid \<mapsto> now)\<rparr>)"

text \<open>Lines 888-900: the body of the loop over \<^verbatim>\<open>POSITIVE_KEYWORDS\<close> at a hit.\<close>

definition positive_branch :: "config \<Rightarrow> event \<Rightarrow> state \<Rightarrow> state" where
  "positive_branch cfg ev s =
     (let pid = person_id ev; now = current_time ev
      in if content_len_no_space ev < min_positive_len cfg then s
         else if now - tracker_get (positive_interaction_tracker s) pid
                   < real_of_int (positive_cooldown cfg)
         then s
         else (let boost_delta =
                     (if content_len_no_space ev \<ge> min_positive_len cfg * 3
                      then positive_delta cfg + positive_bonus_delta cfg
                      else positive_delta cfg)
               in (scored s pid boost_delta ''positive'' now)
                    \<lparr>positive_interaction_tracker :=
                        (positive_interaction_tracker s)(pid \<mapsto> now)\<rparr>))"

text \<open>Lines 903-941: the everyday interaction, with its cooldown and its daily cap.\<close>

definition normal_branch :: "config \<Rightarrow> event \<Rightarrow> state \<Rightarrow> state" where
  "normal_branch cfg ev s =
     (let pid = person_id ev; now = current_time ev
      in if content_len_no_space ev \<ge> min_normal_len cfg then
           (if now - tracker_get (normal_interaction_tracker s) pid
                 < real_of_int (normal_cooldown cfg)
            then s
            else
              (let tracker0 = (case daily_normal_gain_tracker s pid of
                                 None \<Rightarrow> \<lparr>date = today ev, count = 0\<rparr>
                               | Some t \<Rightarrow> t);
                   tracker = (if date tracker0 \<noteq> today ev
                              then \<lparr>date = today ev, count = 0\<rparr> else tracker0)
               in if count tracker \<ge> daily_limit cfg
                  then s\<lparr>daily_normal_gain_tracker :=
                            (daily_normal_gain_tracker s)(pid \<mapsto> tracker)\<rparr>
                  else (scored s pid (normal_delta cfg) ''neutral'' now)
                         \<lparr>normal_interaction_tracker :=
                             (normal_interaction_tracker s)(pid \<mapsto> now),
                          daily_normal_gain_tracker :=
                             (daily_normal_gain_tracker s)
                               (pid \<mapsto> tracker\<lparr>count := count tracker + normal_delta cfg\<rparr>)\<rparr>))
         else s)"

text \<open>
  Lines 788-941: the keyword loops in their order; each loop returns at its first hit.
\<close>

definition keyword_stage :: "config \<Rightarrow> event \<Rightarrow> state \<Rightarrow> py_error + state" where
  "keyword_stage cfg ev s =
     (case first_in SEVERE_KEYWORDS (content_lower ev) of
        Some keyword \<Rightarrow> Inr (severe_branch cfg ev keyword s)
      | None \<Rightarrow>
     (case first_in MILD_NEGATIVE_KEYWORDS (content_lower ev) of
        Some keyword \<Rightarrow> Inr (mild_branch cfg ev s)
      | None \<Rightarrow>
     (case first_in NEGATIVE_KEYWORDS (content_lower ev) of
        Some keyword \<Rightarrow> negative_branch cfg ev keyword s
      | None \<Rightarrow>
     (case first_in AFFECTIONATE_KEYWORDS (content_lower ev) of
        Some keyword \<Rightarrow> Inr (affectionate_branch cfg ev s)
      | None \<Rightarrow>
     (case first_in POSITIVE_KEYWORDS (content_lower ev) of
        Some keyword \<Rightarrow> Inr (positive_branch cfg ev s)
      | None \<Rightarrow> Inr (normal_branch cfg ev s))))))"

text \<open>
  \<^verbatim>\<open>FavorabilityEventHandler.execute\<close> from line 679 on. Every return gives the same
  tuple \<^verbatim>\<open>(True, False, None, None, None)\<close>, so a return is \<open>Inr\<close> of the state
  afterwards; \<open>Inl\<close> is the exception that leaves the handler, which has no
  \<^verbatim>\<open>try\<close> of its own.
\<close>

definition FavorabilityEventHandler_execute ::
    "config \<Rightarrow> event \<Rightarrow> state \<Rightarrow> py_error + state" where
  "FavorabilityEventHandler_execute cfg ev s =
     (if is_not_talking_to_me cfg ev then Inr (not_talking_branch cfg ev s)
      else case reasoning_stage cfg ev s of
             Some s' \<Rightarrow> Inr s'
           | None \<Rightarrow> keyword_stage cfg ev s)"

text \<open>
  Events handled one after the other by \<^verbatim>\<open>FavorabilityEventHandler.execute\<close>; an
  exception ends the run.
\<close>

fun run :: "config \<Rightarrow> event list \<Rightarrow> state \<Rightarrow> py_error + state" where
  "run cfg [] s = Inr s"
| "run cfg (ev # evs) s =
     (case FavorabilityEventHandler_execute cfg ev s of
        Inl e \<Rightarrow> Inl e
      | Inr s' \<Rightarrow> run cfg evs s')"

section \<open>UserSentimentEventHandler.execute\<close>

text \<open>The prefix \<^verbatim>\<open>user_input:\<close> of the log tag (line 1011).\<close>

definition user_input_tag :: pystr where
  "user_input_tag = [117, 115, 101, 114, 95, 105, 110, 112, 117, 116, 58]"

text \<open>
  Lines 1002-1029, on an event whose sender and text the prologue (lines 952-1000) has
  found. The handler reads \<open>severe_delta\<close>, \<open>harassment_delta\<close>, \<open>harassment_window\<close> and
  \<open>harassment_threshold\<close> of the configuration.
\<close>

definition UserSentimentEventHandler_execute :: "config \<Rightarrow> event \<Rightarrow> state \<Rightarrow> state" where
  "UserSentimentEventHandler_execute cfg ev s =
     (case first_in SEVERE_KEYWORDS (content_lower ev) of
        None \<Rightarrow> s
      | Some keyword \<Rightarrow>
          (let pid = person_id ev; now = current_time ev;
               s1 = record_negative s pid now (user_input_tag @ keyword) (harassment_window cfg)
           in if recent_count s1 pid \<ge> harassment_threshold cfg
              then scored s1 pid (harassment_delta cfg) ''negative'' now
              else scored s1 pid (severe_delta cfg) ''negative'' now))"

section \<open>Vocabulary of the statements\<close>

text \<open>
  The keyword that the severe or the ordinary negative loop appends to the log; a mild
  hit is not logged.
\<close>

definition logged_keyword :: "event \<Rightarrow> pystr option" where
  "logged_keyword ev =
     (case first_in SEVERE_KEYWORDS (content_lower ev) of
        Some keyword \<Rightarrow> Some keyword
      | None \<Rightarrow>
          (case first_in MILD_NEGATIVE_KEYWORDS (content_lower ev) of
             Some keyword \<Rightarrow> None
           | None \<Rightarrow> first_in NEGATIVE_KEYWORDS (content_lower ev)))"

text \<open>
  The hit is logged and the log, with this hit appended and pruned to the window, has
  reached the threshold.
\<close>

definition escalates :: "config \<Rightarrow> event \<Rightarrow> state \<Rightarrow> bool" where
  "escalates cfg ev s =
     (case logged_keyword ev of
        None \<Rightarrow> False
      | Some keyword \<Rightarrow>
          recent_count (record_negative s (person_id ev) (current_time ev) keyword
                          (harassment_window cfg)) (person_id ev)
            \<ge> harassment_threshold cfg)"

text \<open>The person's log of negative hits.\<close>

definition log_of :: "state \<Rightarrow> person_id \<Rightarrow> (real \<times> pystr) list" where
  "log_of s pid = (case negative_behavior_tracker s pid of None \<Rightarrow> [] | Some l \<Rightarrow> l)"

text \<open>
  The message hits in the ordinary negative loop and the softened delta cannot be
  computed: the handler raises.
\<close>

definition softening_raises :: "config \<Rightarrow> event \<Rightarrow> bool" where
  "softening_raises cfg ev =
     (first_in SEVERE_KEYWORDS (content_lower ev) = None
      \<and> first_in MILD_NEGATIVE_KEYWORDS (content_lower ev) = None
      \<and> first_in NEGATIVE_KEYWORDS (content_lower ev) \<noteq> None
      \<and> adjusted_negative_delta cfg ev = Inl OverflowError)"

definition positive_cooling :: "config \<Rightarrow> event \<Rightarrow> state \<Rightarrow> bool" where
  "positive_cooling cfg ev s =
     (current_time ev - tracker_get (positive_interaction_tracker s) (person_id ev)
        < real_of_int (positive_cooldown cfg))"

definition negative_cooling :: "config \<Rightarrow> event \<Rightarrow> state \<Rightarrow> bool" where
  "negative_cooling cfg ev s =
     (current_time ev - tracker_get (negative_interaction_tracker s) (person_id ev)
        < real_of_int (negative_cooldown cfg))"

definition normal_cooling :: "config \<Rightarrow> event \<Rightarrow> state \<Rightarrow> bool" where
  "normal_cooling cfg ev s =
     (current_time ev - tracker_get (normal_interaction_tracker s) (person_id ev)
        < real_of_int (normal_cooldown cfg))"

text \<open>No keyword loop hits: the message reaches the everyday interaction.\<close>

definition plain_message :: "event \<Rightarrow> bool" where
  "plain_message ev =
     (first_in SEVERE_KEYWORDS (content_lower ev) = None
      \<and> first_in MILD_NEGATIVE_KEYWORDS (content_lower ev) = None
      \<and> first_in NEGATIVE_KEYWORDS (content_lower ev) = None
      \<and> first_in AFFECTIONATE_KEYWORDS (content_lower ev) = None
      \<and> first_in POSITIVE_KEYWORDS (content_lower ev) = None)"

text \<open>
  The person's counter of the day as lines 922-929 leave it: 0 without an entry or
  with an entry of another date.
\<close>

definition daily_count :: "state \<Rightarrow> event \<Rightarrow> int" where
  "daily_count s ev =
     (case daily_normal_gain_tracker s (person_id ev) of
        None \<Rightarrow> 0
      | Some t \<Rightarrow> if date t \<noteq> today ev then 0 else count t)"

text \<open>
  An event of person \<open>pid\<close> on the date \<open>d\<close> that reaches the everyday interaction
  whatever the state: no guard phrase, no reasoning detection, no keyword.
\<close>

definition everyday_event :: "config \<Rightarrow> person_id \<Rightarrow> string \<Rightarrow> event \<Rightarrow> bool" where
  "everyday_event cfg pid d ev =
     (person_id ev = pid \<and> today ev = d \<and> plain_message ev
      \<and> \<not> is_not_talking_to_me cfg ev
      \<and> (blank (combined_reasoning ev) \<or> \<not> reasoning_detection_enabled cfg))"

text \<open>The stored score of a person, if there is a row.\<close>

definition stored_score :: "state \<Rightarrow> person_id \<Rightarrow> int option" where
  "stored_score s pid = map_option favorability (rows (store s) pid)"

section \<open>Concrete inputs\<close>

definition db_empty :: db where
  "db_empty = \<lparr>rows = Map.empty, read_fails = False, write_fails = False\<rparr>"

definition db_down :: db where
  "db_down = \<lparr>rows = Map.empty, read_fails = True, write_fails = True\<rparr>"

text \<open>A fresh process over an empty table.\<close>

definition state0 :: state where
  "state0 =
     \<lparr>store = db_empty, negative_behavior_tracker = Map.empty,
      normal_interaction_tracker = Map.empty, positive_interaction_tracker = Map.empty,
      negative_interaction_tracker = Map.empty, daily_normal_gain_tracker = Map.empty\<rparr>"

text \<open>
  A message of user \<open>u1\<close> at clock \<open>t\<close> on 2024-01-01 with the given text and reasoning.
  Without reasoning texts the joined reasoning is one space, \<open>[32]\<close>.
\<close>

definition message :: "pystr \<Rightarrow> pystr \<Rightarrow> real \<Rightarrow> event" where
  "message text reasoning t =
     \<lparr>person_id = ''u1'', content_lower = text, content_len_no_space = int (length text),
      combined_reasoning = reasoning, current_time = t, today = ''2024-01-01''\<rparr>"

text \<open>
  Texts without whitespace:
  \<open>text_useless\<close> is U+4F60 U+771F U+6CA1 U+7528 (hits the ordinary negative keyword U+6CA1 U+7528);
  \<open>text_sorry_useless\<close> puts the softening keyword U+62B1 U+6B49 in front of it;
  \<open>text_severe\<close> is the severe keyword U+53BB U+6B7B;
  \<open>text_weather\<close> is U+4ECA U+5929 U+5929 U+6C14 U+4E0D U+9519 U+5462 (no keyword);
  \<open>reasoning_friendly\<close> is U+7528 U+6237 U+5F88 U+53CB U+597D and a space (label low);
  \<open>reasoning_trust\<close> is U+7528 U+6237 U+8868 U+8FBE U+4E86 U+4FE1 U+4EFB and a space (label high).
\<close>

definition text_useless :: pystr where
  "text_useless = [20320, 30495, 27809, 29992]"

definition text_sorry_useless :: pystr where
  "text_sorry_useless = [25265, 27465, 20320, 30495, 27809, 29992]"

definition text_severe :: pystr where
  "text_severe = [21435, 27515]"

definition text_weather :: pystr where
  "text_weather = [20170, 22825, 22825, 27668, 19981, 38169, 21602]"

definition reasoning_friendly :: pystr where
  "reasoning_friendly = [29992, 25143, 24456, 21451, 22909, 32]"

definition reasoning_trust :: pystr where
  "reasoning_trust = [29992, 25143, 34920, 36798, 20102, 20449, 20219, 32]"

text \<open>The default configuration with the harassment penalty set to -25.\<close>

definition harsh_config :: config where
  "harsh_config = default_config\<lparr>harassment_delta := -25\<rparr>"

text \<open>The default configuration with the reasoning detection switched on.\<close>

definition reasoning_config :: config where
  "reasoning_config = default_config\<lparr>reasoning_detection_enabled := True\<rparr>"

text \<open>
  A person who has collected the ten everyday gains of 2024-01-01, and one whose ten
  gains are of the day before.
\<close>

definition state_capped :: state where
  "state_capped =
     state0\<lparr>daily_normal_gain_tracker := [''u1'' \<mapsto> \<lparr>date = ''2024-01-01'', count = 10\<rparr>]\<rparr>"

definition state_capped_yesterday :: state where
  "state_capped_yesterday =
     state0\<lparr>daily_normal_gain_tracker := [''u1'' \<mapsto> \<lparr>date = ''2023-12-31'', count = 10\<rparr>]\<rparr>"

text \<open>
  The states of a fresh process after one, two, three and four replies to the same
  ordinary insult at the clocks 1000, 1010, 1020 and 1030, under \<open>harsh_config\<close>.
\<close>

definition hit1 :: state where
  "hit1 =
     \<lparr>store = \<lparr>rows = [''u1'' \<mapsto> \<lparr>favorability = 45, level = Known, total_interactions = 1,
                  positive_interactions = 0, negative_interactions = 1,
                  last_interaction = 1000, created_at = 1000\<rparr>],
               read_fails = False, write_fails = False\<rparr>,
      negative_behavior_tracker = [''u1'' \<mapsto> [(1000, [27809, 29992])]],
      normal_interaction_tracker = Map.empty, positive_interaction_tracker = Map.empty,
      negative_interaction_tracker = [''u1'' \<mapsto> 1000], daily_normal_gain_tracker = Map.empty\<rparr>"

definition hit2 :: state where
  "hit2 =
     hit1\<lparr>negative_behavior_tracker :=
            [''u1'' \<mapsto> [(1000, [27809, 29992]), (1010, [27809, 29992])]]\<rparr>"

definition hit3 :: state where
  "hit3 =
     \<lparr>store = \<lparr>rows = [''u1'' \<mapsto> \<lparr>favorability = 20, level = Stranger, total_interactions = 2,
                  positive_interactions = 0, negative_interactions = 2,
                  last_interaction = 1020, created_at = 1000\<rparr>],
               read_fails = False, write_fails = False\<rparr>,
      negative_behavior_tracker =
        [''u1'' \<mapsto> [(1000, [27809, 29992]), (1010, [27809, 29992]), (1020, [27809, 29992])]],
      normal_interaction_tracker = Map.empty, positive_interaction_tracker = Map.empty,
      negative_interaction_tracker = [''u1'' \<mapsto> 1020], daily_normal_gain_tracker = Map.empty\<rparr>"

definition hit4 :: state where
  "hit4 =
     \<lparr>store = \<lparr>rows = [''u1'' \<mapsto> \<lparr>favorability = -5, level = Disliked, total_interactions = 3,
                  positive_interactions = 0, negative_interactions = 3,
                  last_interaction = 1030, created_at = 1000\<rparr>],
               read_fails = False, write_fails = False\<rparr>,
      negative_behavior_tracker =
        [''u1'' \<mapsto> [(1000, [27809, 29992]), (1010, [27809, 29992]), (1020, [27809, 29992]),
                   (1030, [27809, 29992])]],
      normal_interaction_tracker = Map.empty, positive_interaction_tracker = Map.empty,
      negative_interaction_tracker = [''u1'' \<mapsto> 1030], daily_normal_gain_tracker = Map.empty\<rparr>"

text \<open>
  The state of a fresh process after one reply to the insult with an apology in front,
  at the clock 1000, under \<open>default_config\<close>.
\<close>

definition soft1 :: state where
  "soft1 =
     \<lparr>store = \<lparr>rows = [''u1'' \<mapsto> \<lparr>favorability = 48, level = Known, total_interactions = 1,
                  positive_interactions = 0, negative_interactions = 1,
                  last_interaction = 1000, created_at = 1000\<rparr>],
               read_fails = False, write_fails = False\<rparr>,
      negative_behavior_tracker = [''u1'' \<mapsto> [(1000, [27809, 29992])]],
      normal_interaction_tracker = Map.empty, positive_interaction_tracker = Map.empty,
      negative_interaction_tracker = [''u1'' \<mapsto> 1000], daily_normal_gain_tracker = Map.empty\<rparr>"

text \<open>
  A store that holds the score 60 for \<open>u1\<close> and raises on every write, the process
  being fresh; and the state after an everyday message at the clock 1000.
\<close>

definition db_readonly :: db where
  "db_readonly =
     \<lparr>rows = [''u1'' \<mapsto> \<lparr>favorability = 60, level = Acquaintance, total_interactions = 7,
                 positive_interactions = 2, negative_interactions = 0,
                 last_interaction = 900, created_at = 100\<rparr>],
      read_fails = False, write_fails = True\<rparr>"

definition state_readonly :: state where
  "state_readonly = state0\<lparr>store := db_readonly\<rparr>"

definition readonly1 :: state where
  "readonly1 =
     state_readonly
       \<lparr>normal_interaction_tracker := [''u1'' \<mapsto> 1000],
        daily_normal_gain_tracker := [''u1'' \<mapsto> \<lparr>date = ''2024-01-01'', count = 1\<rparr>]\<rparr>"

section \<open>The store operations: clamping, bands, reads, failures\<close>

lemma add_favorability_ok:
  assumes "\<not> read_fails d" and "\<not> write_fails d"
  shows "fst (add_favorability d pid delta ty now) =
           max (-50) (min 150 ((case rows d pid of None \<Rightarrow> 50 | Some r \<Rightarrow> favorability r) + delta))"
    and "map_option favorability (rows (snd (add_favorability d pid delta ty now)) pid) =
           Some (max (-50) (min 150
             ((case rows d pid of None \<Rightarrow> 50 | Some r \<Rightarrow> favorability r) + delta)))"
    and "map_option level (rows (snd (add_favorability d pid delta ty now)) pid) =
           Some (get_favorability_level (max (-50) (min 150
             ((case rows d pid of None \<Rightarrow> 50 | Some r \<Rightarrow> favorability r) + delta))))"
  using assms
  by (auto simp: add_favorability_def get_or_none_def save_def create_def Let_def
      split: option.splits)

lemma set_favorability_ok:
  assumes "\<not> read_fails d" and "\<not> write_fails d"
  shows "fst (set_favorability d pid v now) = True"
    and "map_option favorability (rows (snd (set_favorability d pid v now)) pid) =
           Some (max (-50) (min 150 v))"
    and "map_option level (rows (snd (set_favorability d pid v now)) pid) =
           Some (get_favorability_level (max (-50) (min 150 v)))"
  using assms
  by (auto simp: set_favorability_def get_or_none_def save_def create_def Let_def
      split: option.splits)

text \<open>
  Claim C1. For every person and every signed delta, whatever its magnitude, a mutation
  through \<open>add_favorability\<close> on a working store stores (and returns) the score
  \<open>clamp (old_score + delta)\<close> into \<open>[-50, 150]\<close>, where the old score of a person
  without a row is the default 50; \<open>set_favorability\<close> stores the requested value
  clamped into the same range.
\<close>

theorem score_mutation_clamped:
  assumes "\<not> read_fails d" and "\<not> write_fails d"
  shows "(let old_score = (case rows d pid of None \<Rightarrow> 50 | Some r \<Rightarrow> favorability r);
              new_score = max (-50) (min 150 (old_score + delta))
          in fst (add_favorability d pid delta interaction_type now) = new_score
           \<and> map_option favorability
                (rows (snd (add_favorability d pid delta interaction_type now)) pid)
               = Some new_score
           \<and> -50 \<le> new_score \<and> new_score \<le> 150)
       \<and> (let stored = max (-50) (min 150 v)
          in map_option favorability (rows (snd (set_favorability d pid v now)) pid)
               = Some stored
           \<and> -50 \<le> stored \<and> stored \<le> 150)"
  using add_favorability_ok(1,2)[OF assms] set_favorability_ok(2)[OF assms]
  by (simp add: Let_def)

theorem score_mutation_clamped_witness:
  "fst (add_favorability db_empty ''u1'' 1000000 ''positive'' 0) = 150
   \<and> map_option favorability
        (rows (snd (add_favorability db_empty ''u1'' 1000000 ''positive'' 0)) ''u1'') = Some 150
   \<and> map_option favorability
        (rows (snd (set_favorability db_empty ''u1'' (-1000000) 0)) ''u1'') = Some (-50)"
  using score_mutation_clamped [of db_empty "''u1''" 1000000 "''positive''" 0 "-1000000"]
  by (simp add: db_empty_def Let_def)

text \<open>
  Claim C2. The band classifier is a total function of the score that agrees with the
  nine-range table of section 4.1 on all of \<open>[-50, 150]\<close>, with inclusive boundaries
  (120 is in the kin band, 119 in the bestfriend band), and it is monotonically
  non-decreasing in the score.
\<close>

theorem band_classifier_step_function:
  "(-50 \<le> s \<and> s \<le> 150 \<longrightarrow> band_spec s = Some (get_favorability_level s))
   \<and> get_favorability_level 120 = Kin
   \<and> get_favorability_level 119 = Bestfriend
   \<and> (a \<le> b \<longrightarrow>
        level_rank (get_favorability_level a) \<le> level_rank (get_favorability_level b))"
  by (simp add: band_spec_def band_table_def get_favorability_level_def)

theorem band_classifier_step_function_witness:
  "band_spec 120 = Some Kin \<and> band_spec 119 = Some Bestfriend
   \<and> level_rank (get_favorability_level 119) \<le> level_rank (get_favorability_level 120)"
  using band_classifier_step_function [of 120 119 120]
    band_classifier_step_function [of 119 119 120]
  by simp

text \<open>
  Claim C3. Every write path stores the band recomputed from the stored score by the
  nine-band function, and the administrative set operation clamps into the engine's
  range and re-bands accordingly. The administration script does not: asked for 130 it
  stores 130 with the bestfriend band, where the nine-band function gives kin; asked
  for -20 it stores 0 with the disliked band, where the engine's own
  \<open>set_favorability\<close> stores -20 with the hostile band.
\<close>

theorem modify_favorability_band_mismatch:
  "map_option (\<lambda>r. (favorability r, level r))
      (case modify_favorability db_empty ''u1'' 130 0 of Inl e \<Rightarrow> None | Inr d \<Rightarrow> rows d ''u1'')
     = Some (130, Bestfriend)
   \<and> get_favorability_level 130 = Kin
   \<and> map_option (\<lambda>r. (favorability r, level r))
      (case modify_favorability db_empty ''u1'' (-20) 0 of Inl e \<Rightarrow> None | Inr d \<Rightarrow> rows d ''u1'')
     = Some (0, Disliked)
   \<and> map_option (\<lambda>r. (favorability r, level r))
      (rows (snd (set_favorability db_empty ''u1'' (-20) 0)) ''u1'') = Some (-20, Hostile)"
  by (simp add: modify_favorability_def manager_get_favorability_level_def
      set_favorability_def get_favorability_level_def get_or_none_def create_def db_empty_def)

text \<open>
  Claim C8, as stated: a read for a person without a row returns the default record
  with score 50 and creates it. On the empty table the record accessor returns no
  record at all, and the table is the one that was read: it still has no row.
\<close>

theorem first_read_creates_record_counterexample:
  "rows db_empty ''u1'' = None
   \<and> get_favorability db_empty ''u1'' = 50
   \<and> get_favorability_record db_empty ''u1'' = None"
  by (simp add: get_favorability_def get_favorability_record_def get_or_none_def db_empty_def)

text \<open>
  Claim C8, amended. For a person without a row, \<open>get_favorability\<close> returns the default
  score 50 and \<open>get_favorability_record\<close> returns no record; the reads are queries and
  leave the store as it is. The row is created by the first mutation, from the default
  score 50.
\<close>

theorem first_read_default_without_record:
  assumes "rows d pid = None"
  shows "get_favorability d pid = 50 \<and> get_favorability_record d pid = None
       \<and> (\<not> read_fails d \<and> \<not> write_fails d \<longrightarrow>
            map_option favorability
              (rows (snd (add_favorability d pid delta interaction_type now)) pid)
              = Some (max (-50) (min 150 (50 + delta))))"
  using assms
  by (auto simp: get_favorability_def get_favorability_record_def get_or_none_def
      add_favorability_def create_def Let_def)

theorem first_read_default_without_record_witness:
  "get_favorability db_empty ''u1'' = 50 \<and> get_favorability_record db_empty ''u1'' = None
   \<and> map_option favorability
        (rows (snd (add_favorability db_empty ''u1'' 3 ''positive'' 0)) ''u1'') = Some 53"
  using first_read_default_without_record [of db_empty "''u1''" 3 "''positive''" 0]
  by (simp add: db_empty_def)

text \<open>
  Claim C9. When the store raises on a read or on a write, the operations of the plugin
  catch it and return their safe default: a failed read reports the score 50 (and no
  record), a failed mutation through \<open>add_favorability\<close> returns 50 and leaves the store
  unchanged, and \<open>set_favorability\<close> returns False with the store unchanged. The results
  carry no error: nothing reaches the caller.
\<close>

theorem store_failure_safe_default:
  "(read_fails d \<longrightarrow> get_favorability d pid = 50 \<and> get_favorability_record d pid = None)
   \<and> (read_fails d \<or> write_fails d \<longrightarrow>
        add_favorability d pid delta interaction_type now = (50, d)
      \<and> set_favorability d pid v now = (False, d))"
  by (auto simp: get_favorability_def get_favorability_record_def get_or_none_def
      add_favorability_def set_favorability_def save_def create_def Let_def
      split: option.splits)

theorem store_failure_safe_default_witness:
  "get_favorability db_down ''u1'' = 50 \<and> get_favorability_record db_down ''u1'' = None
   \<and> add_favorability db_down ''u1'' (-5) ''negative'' 0 = (50, db_down)
   \<and> set_favorability db_down ''u1'' 10 0 = (False, db_down)"
  using store_failure_safe_default [of db_down "''u1''" "-5" "''negative''" 0 10]
  by (simp add: db_down_def)

section \<open>The event handlers: the branches\<close>

lemma record_negative_fields [simp]:
  "store (record_negative s pid now kw w) = store s"
  "normal_interaction_tracker (record_negative s pid now kw w) = normal_interaction_tracker s"
  "positive_interaction_tracker (record_negative s pid now kw w) = positive_interaction_tracker s"
  "negative_interaction_tracker (record_negative s pid now kw w) = negative_interaction_tracker s"
  "daily_normal_gain_tracker (record_negative s pid now kw w) = daily_normal_gain_tracker s"
  "log_of (record_negative s pid now kw w) pid =
     filter (\<lambda>(ts, kw). now - ts < real_of_int w) (log_of s pid @ [(now, kw)])"
  by (simp_all add: record_negative_def log_of_def)

lemma scored_fields [simp]:
  "store (scored s pid delta ty now) = snd (add_favorability (store s) pid delta ty now)"
  "negative_behavior_tracker (scored s pid delta ty now) = negative_behavior_tracker s"
  "normal_interaction_tracker (scored s pid delta ty now) = normal_interaction_tracker s"
  "positive_interaction_tracker (scored s pid delta ty now) = positive_interaction_tracker s"
  "negative_interaction_tracker (scored s pid delta ty now) = negative_interaction_tracker s"
  "daily_normal_gain_tracker (scored s pid delta ty now) = daily_normal_gain_tracker s"
  by (simp_all add: scored_def)

lemma recent_count_log_of: "recent_count s pid = int (length (log_of s pid))"
  by (simp add: recent_count_def log_of_def)

lemma execute_keyword_stage:
  assumes "\<not> is_not_talking_to_me cfg ev" and "reasoning_stage cfg ev s = None"
  shows "FavorabilityEventHandler_execute cfg ev s = keyword_stage cfg ev s"
  using assms by (simp add: FavorabilityEventHandler_execute_def)

lemma reasoning_stage_off:
  assumes "blank (combined_reasoning ev) \<or> \<not> reasoning_detection_enabled cfg"
  shows "reasoning_stage cfg ev s = None"
  using assms by (auto simp: reasoning_stage_def)

lemma py_error_only: "(e::py_error) = OverflowError"
  by (cases e) simp

lemma keyword_stage_escalates:
  assumes "escalates cfg ev s" and "\<not> softening_raises cfg ev"
  shows "\<exists>keyword. logged_keyword ev = Some keyword
       \<and> keyword_stage cfg ev s =
           Inr ((scored (record_negative s (person_id ev) (current_time ev) keyword
                           (harassment_window cfg))
                   (person_id ev) (harassment_delta cfg) ''negative'' (current_time ev))
                  \<lparr>negative_interaction_tracker :=
                      (negative_interaction_tracker s)(person_id ev \<mapsto> current_time ev)\<rparr>)"
proof (cases "adjusted_negative_delta cfg ev")
  case (Inl e)
  then have "adjusted_negative_delta cfg ev = Inl OverflowError"
    using py_error_only [of e] by simp
  with assms show ?thesis
    by (auto simp: keyword_stage_def escalates_def logged_keyword_def severe_branch_def
        softening_raises_def Let_def split: option.splits)
next
  case (Inr adjusted)
  with assms show ?thesis
    by (auto simp: keyword_stage_def escalates_def logged_keyword_def severe_branch_def
        negative_branch_def Let_def split: option.splits)
qed

lemma keyword_stage_softened:
  assumes "first_in SEVERE_KEYWORDS (content_lower ev) = None"
    and "first_in MILD_NEGATIVE_KEYWORDS (content_lower ev) = None"
    and "first_in NEGATIVE_KEYWORDS (content_lower ev) \<noteq> None"
    and "any_in SOFTEN_NEGATIVE_KEYWORDS (content_lower ev)"
    and "\<not> escalates cfg ev s" and "\<not> negative_cooling cfg ev s"
  shows "case int_half (negative_delta cfg) of
           Inl e \<Rightarrow> keyword_stage cfg ev s = Inl e
         | Inr half \<Rightarrow>
             (\<exists>s'. keyword_stage cfg ev s = Inr s'
                \<and> store s' = snd (add_favorability (store s) (person_id ev) (min (-1) half)
                                     ''negative'' (current_time ev)))"
  using assms
  by (auto simp: keyword_stage_def negative_cooling_def escalates_def
      logged_keyword_def negative_branch_def adjusted_negative_delta_def Let_def
      split: option.splits sum.splits)

lemma int_half_small:
  assumes "\<bar>n\<bar> < 2 ^ 53"
  shows "int_half n = Inr (if 0 \<le> n then n div 2 else - ((- n) div 2))"
  using assms by (auto simp: int_half_def Let_def sgn_if)

lemma bit_length_bounds:
  assumes "2 ^ k \<le> n" and "n < 2 ^ Suc k"
  shows "bit_length n = Suc k"
  using assms
proof (induction k arbitrary: n)
  case 0
  then have "n = 1" by simp
  then show ?case by (simp add: bit_length.simps)
next
  case (Suc k)
  have "2 ^ k \<le> n div 2" "n div 2 < 2 ^ Suc k"
    using Suc.prems by auto
  moreover have "(0::nat) < 2 ^ Suc k" by simp
  then have "0 < n" using Suc.prems(1) by linarith
  ultimately show ?case
    using Suc.IH [of "n div 2"] by (subst bit_length.simps) simp
qed

lemma int_half_examples:
  "int_half (-5) = Inr (-2)"
  "int_half (- (2 ^ 54 + 3)) = Inr (- (2 ^ 53 + 2))"
  "int_half (- (2 ^ 1025)) = Inl OverflowError"
proof -
  show "int_half (-5) = Inr (-2)"
    by (simp add: int_half_def)
  have "bit_length (nat (2 ^ 54 + 3)) = 55"
    by (rule bit_length_bounds [of 54, simplified]) simp_all
  then show "int_half (- (2 ^ 54 + 3)) = Inr (- (2 ^ 53 + 2))"
    by (simp add: int_half_def round_half_even_def Let_def)
  have "bit_length (nat (2 ^ 1025)) = 1026"
    using bit_length_bounds [of 1025 "2 ^ 1025"] by simp
  moreover have "(2::int) ^ 1025 div (2 * 2 ^ 972) = 2 ^ 52" "(2::int) ^ 1025 mod (2 * 2 ^ 972) = 0"
    by (simp_all flip: power_Suc add: power_diff [symmetric] le_imp_power_dvd dvd_eq_mod_eq_0 [symmetric])
  ultimately show "int_half (- (2 ^ 1025)) = Inl OverflowError"
    by (simp add: int_half_def round_half_even_def Let_def flip: power_add)
qed

lemma keyword_stage_plain:
  assumes "plain_message ev"
  shows "keyword_stage cfg ev s = Inr (normal_branch cfg ev s)"
  using assms by (simp add: keyword_stage_def plain_message_def)

lemma daily_gain_rebuild:
  fixes t :: daily_gain
  assumes "date t = d"
  shows "\<lparr>date = d, count = count t\<rparr> = t" and "t\<lparr>count := c\<rparr> = \<lparr>date = d, count = c\<rparr>"
  using assms by (cases t, simp)+

lemma normal_branch_cases:
  "(content_len_no_space ev < min_normal_len cfg \<or> normal_cooling cfg ev s \<longrightarrow>
      normal_branch cfg ev s = s)
   \<and> (min_normal_len cfg \<le> content_len_no_space ev \<and> \<not> normal_cooling cfg ev s
        \<and> daily_limit cfg \<le> daily_count s ev \<longrightarrow>
          normal_branch cfg ev s =
            s\<lparr>daily_normal_gain_tracker := (daily_normal_gain_tracker s)
                 (person_id ev \<mapsto> \<lparr>date = today ev, count = daily_count s ev\<rparr>)\<rparr>)
   \<and> (min_normal_len cfg \<le> content_len_no_space ev \<and> \<not> normal_cooling cfg ev s
        \<and> daily_count s ev < daily_limit cfg \<longrightarrow>
          normal_branch cfg ev s =
            (scored s (person_id ev) (normal_delta cfg) ''neutral'' (current_time ev))
              \<lparr>normal_interaction_tracker :=
                  (normal_interaction_tracker s)(person_id ev \<mapsto> current_time ev),
               daily_normal_gain_tracker := (daily_normal_gain_tracker s)
                 (person_id ev \<mapsto>
                    \<lparr>date = today ev, count = daily_count s ev + normal_delta cfg\<rparr>)\<rparr>)"
  by (auto simp: normal_branch_def normal_cooling_def daily_count_def Let_def
      daily_gain_rebuild split: option.splits)

lemma everyday_step_capped:
  assumes "everyday_event cfg pid d e" and "person_id ev = pid" and "today ev = d"
    and "daily_limit cfg \<le> daily_count s ev"
  shows "\<exists>s'. FavorabilityEventHandler_execute cfg e s = Inr s'
           \<and> store s' = store s
           \<and> normal_interaction_tracker s' = normal_interaction_tracker s
           \<and> daily_count s' ev = daily_count s ev"
proof -
  have ex: "FavorabilityEventHandler_execute cfg e s = Inr (normal_branch cfg e s)"
    using assms(1)
    by (simp add: everyday_event_def execute_keyword_stage reasoning_stage_off keyword_stage_plain)
  have dc: "daily_count s e = daily_count s ev" "person_id e = person_id ev" "today e = today ev"
    using assms(1,2,3) by (simp_all add: everyday_event_def daily_count_def split: option.splits)
  consider "content_len_no_space e < min_normal_len cfg \<or> normal_cooling cfg e s"
    | "min_normal_len cfg \<le> content_len_no_space e \<and> \<not> normal_cooling cfg e s"
    by linarith
  then show ?thesis
  proof cases
    case 1
    then have "normal_branch cfg e s = s"
      using normal_branch_cases [of e cfg s] by blast
    then show ?thesis by (simp add: ex)
  next
    case 2
    then have "normal_branch cfg e s =
            s\<lparr>daily_normal_gain_tracker := (daily_normal_gain_tracker s)
                 (person_id e \<mapsto> \<lparr>date = today e, count = daily_count s e\<rparr>)\<rparr>"
      using normal_branch_cases [of e cfg s] assms(4) dc(1) by simp
    then show ?thesis
      by (simp add: ex dc daily_count_def split: option.splits)
  qed
qed

lemma run_capped:
  assumes "list_all (everyday_event cfg (person_id ev) (today ev)) evs"
    and "daily_limit cfg \<le> daily_count s ev"
  shows "\<exists>s'. run cfg evs s = Inr s'
           \<and> store s' = store s
           \<and> normal_interaction_tracker s' = normal_interaction_tracker s
           \<and> daily_count s' ev = daily_count s ev"
  using assms
proof (induction evs arbitrary: s)
  case Nil
  then show ?case by simp
next
  case (Cons e evs)
  from Cons.prems(1) have e: "everyday_event cfg (person_id ev) (today ev) e"
    and rest: "list_all (everyday_event cfg (person_id ev) (today ev)) evs"
    by simp_all
  from everyday_step_capped [OF e refl refl Cons.prems(2)]
  obtain s1 where s1: "FavorabilityEventHandler_execute cfg e s = Inr s1"
    "store s1 = store s" "normal_interaction_tracker s1 = normal_interaction_tracker s"
    "daily_count s1 ev = daily_count s ev"
    by blast
  from Cons.IH [OF rest, of s1] Cons.prems(2) s1(4)
  obtain s' where "run cfg evs s1 = Inr s'" "store s' = store s1"
    "normal_interaction_tracker s' = normal_interaction_tracker s1"
    "daily_count s' ev = daily_count s1 ev"
    by auto
  then show ?case
    using s1 by simp
qed

lemma first_label_positive_tiers:
  assumes "first_label REASONING_POSITIVE_LABELS r = Some tier"
  shows "tier = ''high'' \<or> tier = ''mid'' \<or> tier = ''low''"
  using assms
  by (auto simp: first_label_def REASONING_POSITIVE_LABELS_def split: if_splits)

lemma severe_hit_under_cooldown:
  assumes "\<not> is_not_talking_to_me cfg ev" and "reasoning_stage cfg ev s = None"
    and "first_in SEVERE_KEYWORDS (content_lower ev) \<noteq> None"
    and "negative_cooling cfg ev s" and "\<not> escalates cfg ev s"
  shows "\<exists>s'. FavorabilityEventHandler_execute cfg ev s = Inr s'
           \<and> store s' = store s
           \<and> negative_interaction_tracker s' = negative_interaction_tracker s"
  using assms(3,4,5)
  by (auto simp: execute_keyword_stage [OF assms(1,2)] keyword_stage_def severe_branch_def
      negative_cooling_def escalates_def logged_keyword_def Let_def)

lemma sentiment_hit_always_scores:
  assumes "first_in SEVERE_KEYWORDS (content_lower ev) = Some keyword"
  shows "store (UserSentimentEventHandler_execute cfg ev s)
           = snd (add_favorability (store s) (person_id ev)
                    (if harassment_threshold cfg
                          \<le> recent_count
                               (record_negative s (person_id ev) (current_time ev)
                                  (user_input_tag @ keyword) (harassment_window cfg))
                               (person_id ev)
                     then harassment_delta cfg else severe_delta cfg)
                    ''negative'' (current_time ev))
       \<and> negative_interaction_tracker (UserSentimentEventHandler_execute cfg ev s)
           = negative_interaction_tracker s"
  using assms by (simp add: UserSentimentEventHandler_execute_def Let_def)

section \<open>The event handlers on the concrete inputs\<close>

lemmas tables =
  SEVERE_KEYWORDS_def MILD_NEGATIVE_KEYWORDS_def NEGATIVE_KEYWORDS_def
  AFFECTIONATE_KEYWORDS_def POSITIVE_KEYWORDS_def SOFTEN_NEGATIVE_KEYWORDS_def

lemma message_fields [simp]:
  "person_id (message txt r t) = ''u1''"
  "content_lower (message txt r t) = txt"
  "content_len_no_space (message txt r t) = int (length txt)"
  "combined_reasoning (message txt r t) = r"
  "current_time (message txt r t) = t"
  "today (message txt r t) = ''2024-01-01''"
  by (simp_all add: message_def)

lemma no_reasoning:
  "\<not> is_not_talking_to_me cfg (message txt [32] t)"
  "reasoning_stage cfg (message txt [32] t) s = None"
  "blank (combined_reasoning (message txt [32] t))"
  by (simp_all add: is_not_talking_to_me_def reasoning_stage_def blank_def isspace_def
      any_in_def NOT_TALKING_TO_ME_KEYWORDS_def)

lemma useless_eval:
  "first_in SEVERE_KEYWORDS text_useless = None"
  "first_in MILD_NEGATIVE_KEYWORDS text_useless = None"
  "first_in NEGATIVE_KEYWORDS text_useless = Some [27809, 29992]"
  "any_in SOFTEN_NEGATIVE_KEYWORDS text_useless = False"
  by (simp_all add: first_in_def any_in_def tables text_useless_def)

lemma sorry_useless_eval:
  "first_in SEVERE_KEYWORDS text_sorry_useless = None"
  "first_in MILD_NEGATIVE_KEYWORDS text_sorry_useless = None"
  "first_in NEGATIVE_KEYWORDS text_sorry_useless = Some [27809, 29992]"
  "any_in SOFTEN_NEGATIVE_KEYWORDS text_sorry_useless = True"
  by (simp_all add: first_in_def any_in_def tables text_sorry_useless_def)

lemma severe_eval:
  "first_in SEVERE_KEYWORDS text_severe = Some [21435, 27515]"
  by (simp add: first_in_def tables text_severe_def)

lemma weather_eval:
  "first_in SEVERE_KEYWORDS text_weather = None"
  "first_in MILD_NEGATIVE_KEYWORDS text_weather = None"
  "first_in NEGATIVE_KEYWORDS text_weather = None"
  "first_in AFFECTIONATE_KEYWORDS text_weather = None"
  "first_in POSITIVE_KEYWORDS text_weather = None"
  "length text_weather = 7"
  by (simp_all add: first_in_def tables text_weather_def)

lemma trust_eval:
  "\<not> is_not_talking_to_me cfg (message txt reasoning_trust t)"
  "\<not> blank reasoning_trust"
  "first_label REASONING_BEHAVIOR_LABELS reasoning_trust = None"
  "first_label REASONING_POSITIVE_LABELS reasoning_trust = Some ''high''"
  by (simp_all add: is_not_talking_to_me_def blank_def isspace_def any_in_def first_label_def
      NOT_TALKING_TO_ME_KEYWORDS_def REASONING_BEHAVIOR_LABELS_def
      REASONING_POSITIVE_LABELS_def reasoning_trust_def)

lemma friendly_eval:
  "\<not> is_not_talking_to_me cfg (message txt reasoning_friendly t)"
  "\<not> blank reasoning_friendly"
  "first_label REASONING_BEHAVIOR_LABELS reasoning_friendly = None"
  "first_label REASONING_POSITIVE_LABELS reasoning_friendly = Some ''low''"
  by (simp_all add: is_not_talking_to_me_def blank_def isspace_def any_in_def first_label_def
      NOT_TALKING_TO_ME_KEYWORDS_def REASONING_BEHAVIOR_LABELS_def
      REASONING_POSITIVE_LABELS_def reasoning_friendly_def)

lemma class_eval:
  "logged_keyword (message text_useless r t) = Some [27809, 29992]"
  "logged_keyword (message text_sorry_useless r t) = Some [27809, 29992]"
  "logged_keyword (message text_severe r t) = Some [21435, 27515]"
  "plain_message (message text_weather r t)"
  "\<not> softening_raises cfg (message text_useless r t)"
  by (simp_all add: logged_keyword_def plain_message_def softening_raises_def
      adjusted_negative_delta_def useless_eval sorry_useless_eval severe_eval weather_eval)

lemma default_config_fields [simp]:
  "skip_penalty_when_not_talking_to_me default_config"
  "\<not> reasoning_detection_enabled default_config"
  "interaction_cooldown_seconds default_config = 120"
  "positive_delta default_config = 1"
  "affectionate_delta default_config = 3"
  "negative_delta default_config = -5"
  "mild_negative_delta default_config = 0"
  "severe_delta default_config = -5"
  "harassment_delta default_config = -5"
  "harassment_window default_config = 300"
  "harassment_threshold default_config = 3"
  "positive_cooldown default_config = 120"
  "negative_cooldown default_config = 120"
  "min_positive_len default_config = 4"
  "min_normal_len default_config = 6"
  "positive_bonus_delta default_config = 1"
  "reasoning_positive_delta default_config = 1"
  "reasoning_positive_bonus_high default_config = 2"
  "reasoning_positive_bonus_mid default_config = 1"
  "reasoning_positive_bonus_low default_config = 1"
  "normal_delta default_config = 1"
  "normal_cooldown default_config = 600"
  "daily_limit default_config = 10"
  by (simp_all add: default_config_def)

lemma harsh_config_fields [simp]:
  "skip_penalty_when_not_talking_to_me harsh_config"
  "\<not> reasoning_detection_enabled harsh_config"
  "interaction_cooldown_seconds harsh_config = 120"
  "positive_delta harsh_config = 1"
  "affectionate_delta harsh_config = 3"
  "negative_delta harsh_config = -5"
  "mild_negative_delta harsh_config = 0"
  "severe_delta harsh_config = -5"
  "harassment_delta harsh_config = -25"
  "harassment_window harsh_config = 300"
  "harassment_threshold harsh_config = 3"
  "positive_cooldown harsh_config = 120"
  "negative_cooldown harsh_config = 120"
  "min_positive_len harsh_config = 4"
  "min_normal_len harsh_config = 6"
  "positive_bonus_delta harsh_config = 1"
  "reasoning_positive_delta harsh_config = 1"
  "reasoning_positive_bonus_high harsh_config = 2"
  "reasoning_positive_bonus_mid harsh_config = 1"
  "reasoning_positive_bonus_low harsh_config = 1"
  "normal_delta harsh_config = 1"
  "normal_cooldown harsh_config = 600"
  "daily_limit harsh_config = 10"
  by (simp_all add: harsh_config_def)

lemma state0_fields [simp]:
  "store state0 = db_empty"
  "negative_behavior_tracker state0 = Map.empty"
  "normal_interaction_tracker state0 = Map.empty"
  "positive_interaction_tracker state0 = Map.empty"
  "negative_interaction_tracker state0 = Map.empty"
  "daily_normal_gain_tracker state0 = Map.empty"
  by (simp_all add: state0_def)

lemmas store_ops =
  add_favorability_def get_or_none_def create_def save_def get_favorability_level_def

lemmas handler_state =
  stored_score_def db_empty_def record_negative_def recent_count_def log_of_def
  tracker_get_def scored_def

lemma int_half_default: "int_half (-5) = Inr (-2)"
  by (simp add: int_half_def)

lemmas eval_defs =
  FavorabilityEventHandler_execute_def no_reasoning keyword_stage_def negative_branch_def
  severe_branch_def normal_branch_def Let_def handler_state adjusted_negative_delta_def
  int_half_default store_ops

lemma hit_steps:
  "FavorabilityEventHandler_execute harsh_config (message text_useless [32] 1000) state0 = Inr hit1"
  "FavorabilityEventHandler_execute harsh_config (message text_useless [32] 1010) hit1 = Inr hit2"
  "FavorabilityEventHandler_execute harsh_config (message text_useless [32] 1020) hit2 = Inr hit3"
  "FavorabilityEventHandler_execute harsh_config (message text_useless [32] 1030) hit3 = Inr hit4"
  by (simp_all add: eval_defs useless_eval state0_def hit1_def hit2_def hit3_def hit4_def)

lemma soft_step:
  "FavorabilityEventHandler_execute default_config (message text_sorry_useless [32] 1000) state0
     = Inr soft1"
  by (simp add: eval_defs sorry_useless_eval state0_def soft1_def)

lemma readonly_step:
  "FavorabilityEventHandler_execute default_config (message text_weather [32] 1000)
     state_readonly = Inr readonly1"
  by (simp add: eval_defs weather_eval state0_def state_readonly_def readonly1_def
      db_readonly_def)

lemma weather_everyday:
  "everyday_event cfg ''u1'' ''2024-01-01'' (message text_weather [32] t)"
  by (simp add: everyday_event_def class_eval no_reasoning blank_def isspace_def)

section \<open>The event handlers: cooldown, escalation, softening, daily cap, reasoning\<close>

text \<open>
  Claim C4. A classified hit that arrives while the cooldown of its family is active
  mutates nothing in the store, on every classification path. The severe loop of
  \<open>FavorabilityEventHandler.execute\<close> checks the negative cooldown and refreshes its
  timestamp (\<open>severe_hit_under_cooldown\<close>); the copy of that loop in
  \<open>UserSentimentEventHandler.execute\<close> does neither (\<open>sentiment_hit_always_scores\<close>).
  After a scored insult at clock 1000 the cooldown of 120 seconds is active at clock
  1060 and the log is below the threshold: on the severe message of that moment the
  first handler leaves the store as it is, the second takes the score from 45 to 40
  and leaves the timestamp at 1000. From a fresh process, two severe messages ten
  seconds apart through the second handler are both scored: 45, then 40.
\<close>

theorem sentiment_handler_scores_under_cooldown:
  "run harsh_config [message text_useless [32] 1000] state0 = Inr hit1
   \<and> negative_cooling harsh_config (message text_severe [32] 1060) hit1
   \<and> \<not> escalates harsh_config (message text_severe [32] 1060) hit1
   \<and> stored_score hit1 ''u1'' = Some 45
   \<and> stored_score
        (UserSentimentEventHandler_execute harsh_config (message text_severe [32] 1060) hit1)
        ''u1'' = Some 40
   \<and> negative_interaction_tracker
        (UserSentimentEventHandler_execute harsh_config (message text_severe [32] 1060) hit1)
        ''u1'' = Some 1000
   \<and> map_sum id store
        (FavorabilityEventHandler_execute harsh_config (message text_severe [32] 1060) hit1)
       = Inr (store hit1)
   \<and> stored_score
        (UserSentimentEventHandler_execute harsh_config (message text_severe [32] 1000) state0)
        ''u1'' = Some 45
   \<and> stored_score
        (UserSentimentEventHandler_execute harsh_config (message text_severe [32] 1010)
           (UserSentimentEventHandler_execute harsh_config (message text_severe [32] 1000)
              state0))
        ''u1'' = Some 40"
proof -
  have "run harsh_config [message text_useless [32] 1000] state0 = Inr hit1"
    by (simp add: hit_steps)
  moreover have "negative_cooling harsh_config (message text_severe [32] 1060) hit1"
    "\<not> escalates harsh_config (message text_severe [32] 1060) hit1"
    "stored_score hit1 ''u1'' = Some 45"
    by (simp_all add: negative_cooling_def escalates_def class_eval handler_state hit1_def)
  moreover have "stored_score
        (UserSentimentEventHandler_execute harsh_config (message text_severe [32] 1060) hit1)
        ''u1'' = Some 40"
    "negative_interaction_tracker
        (UserSentimentEventHandler_execute harsh_config (message text_severe [32] 1060) hit1)
        ''u1'' = Some 1000"
    by (simp_all add: UserSentimentEventHandler_execute_def severe_eval Let_def handler_state
        store_ops hit1_def user_input_tag_def)
  moreover have "map_sum id store
        (FavorabilityEventHandler_execute harsh_config (message text_severe [32] 1060) hit1)
       = Inr (store hit1)"
    by (simp add: eval_defs severe_eval hit1_def)
  moreover have "stored_score
        (UserSentimentEventHandler_execute harsh_config (message text_severe [32] 1000) state0)
        ''u1'' = Some 45"
    "stored_score
        (UserSentimentEventHandler_execute harsh_config (message text_severe [32] 1010)
           (UserSentimentEventHandler_execute harsh_config (message text_severe [32] 1000)
              state0))
        ''u1'' = Some 40"
    by (simp_all add: UserSentimentEventHandler_execute_def severe_eval Let_def handler_state
        store_ops state0_def user_input_tag_def)
  ultimately show ?thesis by blast
qed

text \<open>
  Claim C5, as stated: four ordinary negative hits within the window, with threshold 3,
  produce exactly one escalated penalty. With the harassment penalty at -25 and the
  ordinary penalty at -5, four hits ten seconds apart from a fresh process give the
  scores 45 (ordinary penalty), 45 (suppressed by the cooldown), 20 and -5: the third
  hit and the fourth hit are both scored with the harassment penalty.
\<close>

theorem four_hits_escalate_twice_counterexample:
  "run harsh_config [message text_useless [32] 1000] state0 = Inr hit1
   \<and> run harsh_config [message text_useless [32] 1000, message text_useless [32] 1010] state0
       = Inr hit2
   \<and> run harsh_config [message text_useless [32] 1000, message text_useless [32] 1010,
         message text_useless [32] 1020] state0 = Inr hit3
   \<and> run harsh_config [message text_useless [32] 1000, message text_useless [32] 1010,
         message text_useless [32] 1020, message text_useless [32] 1030] state0 = Inr hit4
   \<and> stored_score hit1 ''u1'' = Some 45
   \<and> stored_score hit2 ''u1'' = Some 45
   \<and> stored_score hit3 ''u1'' = Some 20
   \<and> stored_score hit4 ''u1'' = Some (-5)"
proof -
  have "stored_score hit1 ''u1'' = Some 45" "stored_score hit2 ''u1'' = Some 45"
    "stored_score hit3 ''u1'' = Some 20" "stored_score hit4 ''u1'' = Some (-5)"
    by (simp_all add: stored_score_def hit1_def hit2_def hit3_def hit4_def)
  then show ?thesis
    by (simp add: hit_steps)
qed

text \<open>
  Claim C5, amended. Every severe or ordinary negative keyword hit that reaches the
  keyword loops of \<open>FavorabilityEventHandler.execute\<close> (and whose softened delta can be
  computed) and finds at least \<open>harassment_threshold\<close> entries in the person's log,
  counting the hit itself and only the entries younger than \<open>harassment_window\<close>
  seconds, is scored with the harassment delta in place of the delta of its tier,
  whether or not the negative cooldown is active, and refreshes the negative cooldown
  timestamp. The escalation keeps the log: afterwards it is the pruned log with the hit
  appended. So every further such hit of that person that arrives while those entries
  are still within the window escalates and is scored with the harassment delta again:
  the escalated penalty is paid on each of these hits, not once.
\<close>

theorem harassment_escalation_replaces_delta:
  assumes "\<not> is_not_talking_to_me cfg ev" and "reasoning_stage cfg ev s = None"
    and "escalates cfg ev s" and "\<not> softening_raises cfg ev"
  shows "\<exists>s' keyword.
           FavorabilityEventHandler_execute cfg ev s = Inr s'
         \<and> logged_keyword ev = Some keyword
         \<and> store s' = snd (add_favorability (store s) (person_id ev) (harassment_delta cfg)
                              ''negative'' (current_time ev))
         \<and> negative_interaction_tracker s' (person_id ev) = Some (current_time ev)
         \<and> log_of s' (person_id ev)
             = filter (\<lambda>(ts, kw). current_time ev - ts < real_of_int (harassment_window cfg))
                 (log_of s (person_id ev) @ [(current_time ev, keyword)])
         \<and> harassment_threshold cfg \<le> int (length (log_of s' (person_id ev)))
         \<and> (logged_keyword ev2 \<noteq> None \<and> person_id ev2 = person_id ev
              \<and> list_all (\<lambda>(ts, kw). current_time ev2 - ts < real_of_int (harassment_window cfg))
                   (log_of s' (person_id ev))
              \<and> \<not> is_not_talking_to_me cfg ev2 \<and> reasoning_stage cfg ev2 s' = None
              \<and> \<not> softening_raises cfg ev2 \<longrightarrow>
                escalates cfg ev2 s'
              \<and> (\<exists>s''. FavorabilityEventHandler_execute cfg ev2 s' = Inr s''
                     \<and> store s'' = snd (add_favorability (store s') (person_id ev)
                                           (harassment_delta cfg) ''negative''
                                           (current_time ev2))))"
proof -
  let ?pid = "person_id ev" and ?now = "current_time ev"
  let ?w = "harassment_window cfg"
  from keyword_stage_escalates [OF assms(3,4)]
  obtain keyword where kw: "logged_keyword ev = Some keyword"
    and ks: "keyword_stage cfg ev s =
           Inr ((scored (record_negative s ?pid ?now keyword ?w)
                   ?pid (harassment_delta cfg) ''negative'' ?now)
                  \<lparr>negative_interaction_tracker :=
                      (negative_interaction_tracker s)(?pid \<mapsto> ?now)\<rparr>)"
    by blast
  define s' where "s' = (scored (record_negative s ?pid ?now keyword ?w)
                   ?pid (harassment_delta cfg) ''negative'' ?now)
                  \<lparr>negative_interaction_tracker :=
                      (negative_interaction_tracker s)(?pid \<mapsto> ?now)\<rparr>"
  have ex: "FavorabilityEventHandler_execute cfg ev s = Inr s'"
    using ks by (simp add: execute_keyword_stage [OF assms(1,2)] s'_def)
  have st: "store s' = snd (add_favorability (store s) ?pid (harassment_delta cfg)
                              ''negative'' ?now)"
    by (simp add: s'_def)
  have stamp: "negative_interaction_tracker s' ?pid = Some ?now"
    by (simp add: s'_def)
  have lg: "log_of s' ?pid
             = filter (\<lambda>(ts, kw). ?now - ts < real_of_int ?w) (log_of s ?pid @ [(?now, keyword)])"
    by (simp add: s'_def log_of_def scored_def record_negative_def)
  have len: "harassment_threshold cfg \<le> int (length (log_of s' ?pid))"
    using assms(3) kw by (simp add: lg escalates_def recent_count_log_of)
  have again: "logged_keyword ev2 \<noteq> None \<and> person_id ev2 = person_id ev
              \<and> list_all (\<lambda>(ts, kw). current_time ev2 - ts < real_of_int (harassment_window cfg))
                   (log_of s' (person_id ev))
              \<and> \<not> is_not_talking_to_me cfg ev2 \<and> reasoning_stage cfg ev2 s' = None
              \<and> \<not> softening_raises cfg ev2 \<longrightarrow>
                escalates cfg ev2 s'
              \<and> (\<exists>s''. FavorabilityEventHandler_execute cfg ev2 s' = Inr s''
                     \<and> store s'' = snd (add_favorability (store s') (person_id ev)
                                           (harassment_delta cfg) ''negative''
                                           (current_time ev2)))"
  proof (intro impI, elim conjE)
    assume h: "logged_keyword ev2 \<noteq> None" "person_id ev2 = ?pid"
      "list_all (\<lambda>(ts, kw). current_time ev2 - ts < real_of_int ?w) (log_of s' ?pid)"
      "\<not> is_not_talking_to_me cfg ev2" "reasoning_stage cfg ev2 s' = None"
      "\<not> softening_raises cfg ev2"
    from h(1) obtain k2 where k2: "logged_keyword ev2 = Some k2" by blast
    have keep: "filter (\<lambda>(ts, kw). current_time ev2 - ts < real_of_int ?w) (log_of s' ?pid)
                  = log_of s' ?pid"
      using h(3) by (simp add: list_all_iff)
    have "int (length (log_of s' ?pid))
            \<le> recent_count (record_negative s' ?pid (current_time ev2) k2 ?w) ?pid"
      by (simp add: recent_count_log_of keep)
    then have esc: "escalates cfg ev2 s'"
      using len k2 h(2) by (simp add: escalates_def)
    from keyword_stage_escalates [OF esc h(6)]
    obtain k3 where "keyword_stage cfg ev2 s' =
           Inr ((scored (record_negative s' (person_id ev2) (current_time ev2) k3 ?w)
                   (person_id ev2) (harassment_delta cfg) ''negative'' (current_time ev2))
                  \<lparr>negative_interaction_tracker :=
                      (negative_interaction_tracker s')(person_id ev2 \<mapsto> current_time ev2)\<rparr>)"
      by blast
    then show "escalates cfg ev2 s'
              \<and> (\<exists>s''. FavorabilityEventHandler_execute cfg ev2 s' = Inr s''
                     \<and> store s'' = snd (add_favorability (store s') ?pid
                                           (harassment_delta cfg) ''negative''
                                           (current_time ev2)))"
      using esc h(2) by (simp add: execute_keyword_stage [OF h(4,5)])
  qed
  show ?thesis
    by (intro exI conjI) (rule ex kw st stamp lg len again)+
qed

theorem harassment_escalation_replaces_delta_witness:
  "negative_cooling harsh_config (message text_useless [32] 1020) hit2
   \<and> FavorabilityEventHandler_execute harsh_config (message text_useless [32] 1020) hit2
       = Inr hit3
   \<and> stored_score hit2 ''u1'' = Some 45 \<and> stored_score hit3 ''u1'' = Some 20
   \<and> log_of hit3 ''u1''
       = [(1000, [27809, 29992]), (1010, [27809, 29992]), (1020, [27809, 29992])]
   \<and> escalates harsh_config (message text_useless [32] 1030) hit3
   \<and> (\<exists>s''. FavorabilityEventHandler_execute harsh_config (message text_useless [32] 1030) hit3
               = Inr s''
          \<and> stored_score s'' ''u1'' = Some (-5))"
proof -
  have esc: "escalates harsh_config (message text_useless [32] 1020) hit2"
    by (simp add: escalates_def class_eval hit2_def hit1_def record_negative_def recent_count_def)
  from harassment_escalation_replaces_delta
      [of harsh_config "message text_useless [32] 1020" hit2 "message text_useless [32] 1030",
       OF no_reasoning(1,2) esc class_eval(5)]
  obtain s' where s': "FavorabilityEventHandler_execute harsh_config
        (message text_useless [32] 1020) hit2 = Inr s'"
    and again: "logged_keyword (message text_useless [32] 1030) \<noteq> None
        \<and> person_id (message text_useless [32] 1030) = person_id (message text_useless [32] 1020)
        \<and> list_all (\<lambda>(ts, kw). current_time (message text_useless [32] 1030) - ts
                       < real_of_int (harassment_window harsh_config))
             (log_of s' (person_id (message text_useless [32] 1020)))
        \<and> \<not> is_not_talking_to_me harsh_config (message text_useless [32] 1030)
        \<and> reasoning_stage harsh_config (message text_useless [32] 1030) s' = None
        \<and> \<not> softening_raises harsh_config (message text_useless [32] 1030) \<longrightarrow>
          escalates harsh_config (message text_useless [32] 1030) s'
        \<and> (\<exists>s''. FavorabilityEventHandler_execute harsh_config
                     (message text_useless [32] 1030) s' = Inr s''
               \<and> store s'' = snd (add_favorability (store s')
                     (person_id (message text_useless [32] 1020))
                     (harassment_delta harsh_config) ''negative''
                     (current_time (message text_useless [32] 1030))))"
    by blast
  have eq: "s' = hit3"
    using s' by (simp add: hit_steps)
  have lg: "log_of hit3 ''u1''
       = [(1000, [27809, 29992]), (1010, [27809, 29992]), (1020, [27809, 29992])]"
    by (simp add: log_of_def hit3_def)
  from again obtain s'' where esc3: "escalates harsh_config (message text_useless [32] 1030) hit3"
    and ex4: "FavorabilityEventHandler_execute harsh_config (message text_useless [32] 1030) hit3
                = Inr s''"
    and st: "store s'' = snd (add_favorability (store hit3) ''u1'' (-25) ''negative'' 1030)"
    by (auto simp: eq lg class_eval no_reasoning)
  have "map_option favorability
       (rows (snd (add_favorability (store hit3) ''u1'' (-25) ''negative'' 1030)) ''u1'')
       = Some (-5)"
    by (simp add: hit3_def store_ops)
  then have sc4: "stored_score s'' ''u1'' = Some (-5)"
    by (simp add: stored_score_def st)
  have cool: "negative_cooling harsh_config (message text_useless [32] 1020) hit2"
    by (simp add: negative_cooling_def tracker_get_def hit2_def hit1_def)
  have sc: "stored_score hit2 ''u1'' = Some 45" "stored_score hit3 ''u1'' = Some 20"
    by (simp_all add: stored_score_def hit3_def hit2_def hit1_def)
  from cool hit_steps(3) sc lg esc3 ex4 sc4 show ?thesis by blast
qed

text \<open>
  Claim C6, as stated: the softened delta is half the configured delta and rounding
  toward zero is disallowed. With the default delta -5 the half is -2.5 and the
  softened delta is -2, the half rounded toward zero: the softened insult takes the
  score from the default 50 to 48.
\<close>

theorem softened_delta_truncates_counterexample:
  "int_half (negative_delta default_config) = Inr (-2)
   \<and> real_of_int (negative_delta default_config) / 2 < -2
   \<and> FavorabilityEventHandler_execute default_config (message text_sorry_useless [32] 1000)
        state0 = Inr soft1
   \<and> stored_score soft1 ''u1'' = Some 48"
  by (simp add: int_half_default soft_step) (simp add: stored_score_def soft1_def)

text \<open>
  Claim C6, amended. When an ordinary negative keyword hits and a softening keyword
  occurs in the same text, the delta of the tier is \<open>min (-1) (int (negative_delta / 2))\<close>:
  the half of the configured delta, truncated toward zero, and capped at -1. Whenever the
  half can be computed the delta is at most -1, so its magnitude is at least 1, and it
  is the delta that the hit applies when it is neither suppressed by the cooldown nor
  escalated; below \<open>2 ^ 53\<close> in magnitude the half is the exact one, truncated toward
  zero. When the quotient does not fit a double the handler raises
  \<^verbatim>\<open>OverflowError\<close>.
\<close>

theorem softened_negative_delta:
  assumes "\<not> is_not_talking_to_me cfg ev" and "reasoning_stage cfg ev s = None"
    and "first_in SEVERE_KEYWORDS (content_lower ev) = None"
    and "first_in MILD_NEGATIVE_KEYWORDS (content_lower ev) = None"
    and "first_in NEGATIVE_KEYWORDS (content_lower ev) \<noteq> None"
    and "any_in SOFTEN_NEGATIVE_KEYWORDS (content_lower ev)"
    and "\<not> escalates cfg ev s" and "\<not> negative_cooling cfg ev s"
  shows "(case int_half (negative_delta cfg) of
            Inl e \<Rightarrow> FavorabilityEventHandler_execute cfg ev s = Inl e
          | Inr half \<Rightarrow>
              (\<exists>s'. FavorabilityEventHandler_execute cfg ev s = Inr s'
                 \<and> store s' = snd (add_favorability (store s) (person_id ev) (min (-1) half)
                                      ''negative'' (current_time ev)))
              \<and> min (-1) half \<le> -1 \<and> 1 \<le> \<bar>min (-1) half\<bar>)
       \<and> (\<bar>negative_delta cfg\<bar> < 2 ^ 53 \<longrightarrow>
            int_half (negative_delta cfg)
              = Inr (if 0 \<le> negative_delta cfg then negative_delta cfg div 2
                     else - ((- negative_delta cfg) div 2)))"
  using keyword_stage_softened [OF assms(3-8)] int_half_small [of "negative_delta cfg"]
  by (auto simp: execute_keyword_stage [OF assms(1,2)] split: sum.splits)

theorem softened_negative_delta_witness:
  "int_half (negative_delta default_config) = Inr (-2)
   \<and> (\<exists>s'. FavorabilityEventHandler_execute default_config
               (message text_sorry_useless [32] 1000) state0 = Inr s'
          \<and> stored_score s' ''u1'' = Some 48)"
proof -
  have esc: "\<not> escalates default_config (message text_sorry_useless [32] 1000) state0"
    by (simp add: escalates_def class_eval record_negative_def recent_count_def)
  have cool: "\<not> negative_cooling default_config (message text_sorry_useless [32] 1000) state0"
    by (simp add: negative_cooling_def tracker_get_def)
  from softened_negative_delta
      [of default_config "message text_sorry_useless [32] 1000" state0,
       OF no_reasoning(1,2)] esc cool
  obtain s' where "FavorabilityEventHandler_execute default_config
               (message text_sorry_useless [32] 1000) state0 = Inr s'"
    and "store s' = snd (add_favorability (store state0) ''u1'' (-2) ''negative'' 1000)"
    by (auto simp: sorry_useless_eval int_half_default)
  then show ?thesis
    by (auto simp: int_half_default stored_score_def store_ops db_empty_def)
qed

text \<open>
  Claim C7, as stated: the everyday cooldown timestamp is updated exactly when the gain
  succeeds. On a store that raises on writes, an everyday message that passes both
  gates leaves the score at 60, and the timestamp is set to the clock of the event
  all the same.
\<close>

theorem cooldown_updated_on_dropped_write_counterexample:
  "FavorabilityEventHandler_execute default_config (message text_weather [32] 1000)
     state_readonly = Inr readonly1
   \<and> stored_score state_readonly ''u1'' = Some 60
   \<and> stored_score readonly1 ''u1'' = Some 60
   \<and> normal_interaction_tracker state_readonly ''u1'' = None
   \<and> normal_interaction_tracker readonly1 ''u1'' = Some 1000"
  by (simp add: readonly_step)
     (simp add: stored_score_def readonly1_def state_readonly_def db_readonly_def)

text \<open>
  Claim C7, amended. For a message that reaches the everyday interaction: once the
  person's counter of the day has reached \<open>daily_limit\<close>, the message changes neither
  the store nor the everyday cooldown timestamp, and the counter keeps its value, so
  that no further everyday message of that person on that date, however many, changes
  the store or the timestamp; the counter of an entry of another date counts as 0, so
  the gains resume on a new day; under the everyday cooldown, or below the minimum
  length, nothing changes. A message that passes both gates sets the timestamp to its
  clock, adds the gain to the counter of the day and calls \<open>add_favorability\<close>: on a
  working store the clamped gain is stored, and on a failing store the timestamp and
  the counter are updated although the store stays as it is.
\<close>

theorem daily_normal_cap:
  assumes "\<not> is_not_talking_to_me cfg ev" and "reasoning_stage cfg ev s = None"
    and "plain_message ev"
  shows "(content_len_no_space ev < min_normal_len cfg \<or> normal_cooling cfg ev s \<longrightarrow>
            FavorabilityEventHandler_execute cfg ev s = Inr s)
       \<and> (min_normal_len cfg \<le> content_len_no_space ev \<and> \<not> normal_cooling cfg ev s
            \<and> daily_limit cfg \<le> daily_count s ev \<longrightarrow>
              FavorabilityEventHandler_execute cfg ev s =
                Inr (s\<lparr>daily_normal_gain_tracker := (daily_normal_gain_tracker s)
                          (person_id ev \<mapsto> \<lparr>date = today ev, count = daily_count s ev\<rparr>)\<rparr>))
       \<and> (min_normal_len cfg \<le> content_len_no_space ev \<and> \<not> normal_cooling cfg ev s
            \<and> daily_count s ev < daily_limit cfg \<longrightarrow>
              FavorabilityEventHandler_execute cfg ev s =
                Inr (s\<lparr>store := snd (add_favorability (store s) (person_id ev) (normal_delta cfg)
                                        ''neutral'' (current_time ev)),
                        normal_interaction_tracker :=
                          (normal_interaction_tracker s)(person_id ev \<mapsto> current_time ev),
                        daily_normal_gain_tracker := (daily_normal_gain_tracker s)
                          (person_id ev \<mapsto>
                             \<lparr>date = today ev, count = daily_count s ev + normal_delta cfg\<rparr>)\<rparr>)
            \<and> (\<not> read_fails (store s) \<and> \<not> write_fails (store s) \<longrightarrow>
                 map_option favorability
                   (rows (snd (add_favorability (store s) (person_id ev) (normal_delta cfg)
                                 ''neutral'' (current_time ev))) (person_id ev))
                 = Some (max (-50) (min 150
                     ((case rows (store s) (person_id ev) of
                         None \<Rightarrow> 50 | Some r \<Rightarrow> favorability r) + normal_delta cfg))))
            \<and> (read_fails (store s) \<or> write_fails (store s) \<longrightarrow>
                 snd (add_favorability (store s) (person_id ev) (normal_delta cfg)
                        ''neutral'' (current_time ev)) = store s))
       \<and> (daily_limit cfg \<le> daily_count s ev
            \<and> list_all (everyday_event cfg (person_id ev) (today ev)) evs \<longrightarrow>
              (\<exists>s'. run cfg evs s = Inr s'
                 \<and> store s' = store s
                 \<and> normal_interaction_tracker s' = normal_interaction_tracker s
                 \<and> daily_count s' ev = daily_count s ev))"
proof -
  have ex: "FavorabilityEventHandler_execute cfg ev s = Inr (normal_branch cfg ev s)"
    by (simp add: execute_keyword_stage [OF assms(1,2)] keyword_stage_plain [OF assms(3)])
  have ok: "\<not> read_fails d \<and> \<not> write_fails d \<longrightarrow>
      map_option favorability (rows (snd (add_favorability d pid delta ty now)) pid)
        = Some (max (-50) (min 150
            ((case rows d pid of None \<Rightarrow> 50 | Some r \<Rightarrow> favorability r) + delta)))"
    for d pid delta ty now
    using add_favorability_ok(2) [of d pid delta ty now] by blast
  have down: "read_fails d \<or> write_fails d \<longrightarrow>
      snd (add_favorability d pid delta ty now) = d" for d pid delta ty now
    by (auto simp: add_favorability_def get_or_none_def save_def create_def Let_def
        split: option.splits)
  have seq: "daily_limit cfg \<le> daily_count s ev
            \<and> list_all (everyday_event cfg (person_id ev) (today ev)) evs \<longrightarrow>
              (\<exists>s'. run cfg evs s = Inr s'
                 \<and> store s' = store s
                 \<and> normal_interaction_tracker s' = normal_interaction_tracker s
                 \<and> daily_count s' ev = daily_count s ev)"
    using run_capped [of cfg ev evs s] by blast
  show ?thesis
    using normal_branch_cases [of ev cfg s] ok down seq
    by (simp add: ex scored_def)
qed

theorem daily_normal_cap_witness:
  "FavorabilityEventHandler_execute default_config (message text_weather [32] 1000)
     state_capped = Inr state_capped
   \<and> (\<exists>s'. run default_config
               [message text_weather [32] 1000, message text_weather [32] 2000,
                message text_weather [32] 90000] state_capped = Inr s'
          \<and> store s' = store state_capped
          \<and> normal_interaction_tracker s' = normal_interaction_tracker state_capped
          \<and> daily_count s' (message text_weather [32] 1000) = 10)
   \<and> (\<exists>s'. FavorabilityEventHandler_execute default_config (message text_weather [32] 1000)
               state_capped_yesterday = Inr s'
          \<and> stored_score s' ''u1'' = Some 51
          \<and> normal_interaction_tracker s' ''u1'' = Some 1000
          \<and> daily_normal_gain_tracker s' ''u1'' = Some \<lparr>date = ''2024-01-01'', count = 1\<rparr>)
   \<and> FavorabilityEventHandler_execute default_config (message text_weather [32] 500)
        state_capped = Inr state_capped"
proof -
  have dc: "daily_count state_capped (message text_weather [32] t) = 10"
    "daily_count state_capped_yesterday (message text_weather [32] t) = 0" for t
    by (simp_all add: daily_count_def state_capped_def state_capped_yesterday_def)
  have cool: "\<not> normal_cooling default_config (message text_weather [32] 1000) state_capped"
    "\<not> normal_cooling default_config (message text_weather [32] 1000) state_capped_yesterday"
    "normal_cooling default_config (message text_weather [32] 500) state_capped"
    by (simp_all add: normal_cooling_def tracker_get_def state_capped_def
        state_capped_yesterday_def)
  note pre = no_reasoning class_eval
  have a: "FavorabilityEventHandler_execute default_config (message text_weather [32] 1000)
     state_capped = Inr state_capped"
    using daily_normal_cap
        [of default_config "message text_weather [32] 1000" state_capped "[]"] cool(1)
    by (simp add: pre dc weather_eval) (simp add: state_capped_def)
  have b: "\<exists>s'. run default_config
               [message text_weather [32] 1000, message text_weather [32] 2000,
                message text_weather [32] 90000] state_capped = Inr s'
          \<and> store s' = store state_capped
          \<and> normal_interaction_tracker s' = normal_interaction_tracker state_capped
          \<and> daily_count s' (message text_weather [32] 1000) = 10"
    using daily_normal_cap
        [of default_config "message text_weather [32] 1000" state_capped
          "[message text_weather [32] 1000, message text_weather [32] 2000,
            message text_weather [32] 90000]"]
    by (simp add: pre dc weather_everyday del: run.simps)
  have c: "\<exists>s'. FavorabilityEventHandler_execute default_config (message text_weather [32] 1000)
               state_capped_yesterday = Inr s'
          \<and> stored_score s' ''u1'' = Some 51
          \<and> normal_interaction_tracker s' ''u1'' = Some 1000
          \<and> daily_normal_gain_tracker s' ''u1'' = Some \<lparr>date = ''2024-01-01'', count = 1\<rparr>"
    using daily_normal_cap
        [of default_config "message text_weather [32] 1000" state_capped_yesterday "[]"] cool(2)
    by (simp add: pre dc weather_eval)
       (simp add: stored_score_def state_capped_yesterday_def store_ops db_empty_def)
  have d: "FavorabilityEventHandler_execute default_config (message text_weather [32] 500)
        state_capped = Inr state_capped"
    using daily_normal_cap
        [of default_config "message text_weather [32] 500" state_capped "[]"] cool(3)
    by (simp add: pre)
  from a b c d show ?thesis by blast
qed

text \<open>
  Claim C10. With the reasoning detection enabled, no negative behaviour label in the
  reasoning, a positive tier matched and the positive cooldown elapsed, the handler
  applies \<open>reasoning_positive_delta + bonus - 1\<close>, where \<open>bonus\<close> is the configured bonus
  of the matched tier: with the defaults +2 for the high tier and +1 for the mid and the
  low tier. The interaction is counted as positive, and the positive cooldown
  timestamp is refreshed.
\<close>

theorem reasoning_positive_delta_applied:
  assumes "\<not> is_not_talking_to_me cfg ev"
    and "\<not> blank (combined_reasoning ev)" and "reasoning_detection_enabled cfg"
    and "first_label REASONING_BEHAVIOR_LABELS (combined_reasoning ev) = None"
    and "first_label REASONING_POSITIVE_LABELS (combined_reasoning ev) = Some tier"
    and "\<not> positive_cooling cfg ev s"
  shows "(let s' = (scored s (person_id ev)
                     (reasoning_positive_delta cfg + tier_bonus cfg tier - 1)
                     ''positive'' (current_time ev))
                    \<lparr>positive_interaction_tracker :=
                        (positive_interaction_tracker s)(person_id ev \<mapsto> current_time ev)\<rparr>
          in FavorabilityEventHandler_execute cfg ev s = Inr s'
           \<and> (\<not> read_fails (store s) \<and> \<not> write_fails (store s) \<longrightarrow>
                map_option positive_interactions (rows (store s') (person_id ev))
                  = Some ((case rows (store s) (person_id ev) of
                             None \<Rightarrow> 0 | Some r \<Rightarrow> positive_interactions r) + 1)))
       \<and> tier_bonus cfg tier =
           (if tier = ''high'' then reasoning_positive_bonus_high cfg
            else if tier = ''mid'' then reasoning_positive_bonus_mid cfg
            else reasoning_positive_bonus_low cfg)
       \<and> reasoning_positive_delta default_config + tier_bonus default_config ''high'' - 1 = 2
       \<and> reasoning_positive_delta default_config + tier_bonus default_config ''mid'' - 1 = 1
       \<and> reasoning_positive_delta default_config + tier_bonus default_config ''low'' - 1 = 1"
proof -
  have ex: "FavorabilityEventHandler_execute cfg ev s
           = Inr ((scored s (person_id ev) (reasoning_positive_delta cfg + tier_bonus cfg tier - 1)
                ''positive'' (current_time ev))
               \<lparr>positive_interaction_tracker :=
                   (positive_interaction_tracker s)(person_id ev \<mapsto> current_time ev)\<rparr>)"
    using assms
    by (simp add: FavorabilityEventHandler_execute_def reasoning_stage_def reasoning_negative_def
        reasoning_positive_def positive_cooling_def Let_def)
  have tb: "tier_bonus cfg tier =
           (if tier = ''high'' then reasoning_positive_bonus_high cfg
            else if tier = ''mid'' then reasoning_positive_bonus_mid cfg
            else reasoning_positive_bonus_low cfg)"
    using first_label_positive_tiers [OF assms(5)] by (auto simp: tier_bonus_def)
  have cnt: "map_option positive_interactions
              (rows (snd (add_favorability d pid delta ''positive'' now)) pid)
              = Some ((case rows d pid of None \<Rightarrow> 0 | Some r \<Rightarrow> positive_interactions r) + 1)"
    if "\<not> read_fails d" "\<not> write_fails d" for d pid delta now
    using that
    by (auto simp: add_favorability_def get_or_none_def save_def create_def Let_def
        split: option.splits)
  show ?thesis
    using tb cnt [of "store s" "person_id ev"]
    by (simp add: ex tier_bonus_def Let_def)
qed

theorem reasoning_positive_delta_applied_witness:
  "(\<exists>s'. FavorabilityEventHandler_execute reasoning_config
             (message text_weather reasoning_trust 1000) state0 = Inr s'
        \<and> stored_score s' ''u1'' = Some 52
        \<and> map_option positive_interactions (rows (store s') ''u1'') = Some 1)
   \<and> (\<exists>s'. FavorabilityEventHandler_execute reasoning_config
             (message text_weather reasoning_friendly 1000) state0 = Inr s'
        \<and> stored_score s' ''u1'' = Some 51)"
  using reasoning_positive_delta_applied
      [of reasoning_config "message text_weather reasoning_trust 1000" "''high''" state0]
    reasoning_positive_delta_applied
      [of reasoning_config "message text_weather reasoning_friendly 1000" "''low''" state0]
  by (simp add: trust_eval friendly_eval reasoning_config_def positive_cooling_def
      tracker_get_def tier_bonus_def stored_score_def store_ops db_empty_def Let_def)

end
